theory Spec2Isabelle
  imports Complex_Main
begin

section \<open>Python values and errors\<close>

text \<open>
  The selectors and the pipeline of \<^verbatim>\<open>skutil.h2o\<close> are embedded as HOL functions.
  An attribute the source writes with a trailing underscore (\<^verbatim>\<open>drop_\<close>, \<^verbatim>\<open>var_\<close>,
  \<^verbatim>\<open>training_cols_\<close>) carries a prime here (\<open>drop'\<close>), and a leading underscore of a
  private function is left out (\<^verbatim>\<open>_validate_use\<close> is \<open>validate_use\<close>).
  A floating-point number is given by the real number it stands for; a value that may be
  NaN is a \<open>real option\<close> with \<open>None\<close> for NaN, and every comparison with NaN is false.
  Where the program computes in floating point the rounding is written out.
\<close>

datatype pyval =
    PyNone
  | PyBool bool
  | PyInt int
  | PyStr string
  | PyList "pyval list"
  | PyTuple "pyval list"

datatype error =
    ValueError string
  | TypeError string
  | KeyError string
  | IndexError string
  | NotFittedError string
  | EngineError string

type_synonym num = "real option"

definition num_gt :: "num \<Rightarrow> real \<Rightarrow> bool" where
  "num_gt x t = (case x of None \<Rightarrow> False | Some v \<Rightarrow> v > t)"

definition num_lt :: "num \<Rightarrow> real \<Rightarrow> bool" where
  "num_lt x t = (case x of None \<Rightarrow> False | Some v \<Rightarrow> v < t)"

text \<open>Python's truth value of an object (\<^verbatim>\<open>not x\<close> is its negation).\<close>

fun truthy :: "pyval \<Rightarrow> bool" where
  "truthy PyNone = False"
| "truthy (PyBool b) = b"
| "truthy (PyInt n) = (n \<noteq> 0)"
| "truthy (PyStr s) = (s \<noteq> [])"
| "truthy (PyList xs) = (xs \<noteq> [])"
| "truthy (PyTuple xs) = (xs \<noteq> [])"

text \<open>
  \<^verbatim>\<open>hasattr(x, '__iter__')\<close>. Lists and tuples have the attribute; a string has it under
  Python 3 and not under Python 2, so the interpreter is the parameter \<open>py3\<close>.
\<close>

fun has_iter :: "bool \<Rightarrow> pyval \<Rightarrow> bool" where
  "has_iter py3 (PyList xs) = True"
| "has_iter py3 (PyTuple xs) = True"
| "has_iter py3 (PyStr s) = py3"
| "has_iter py3 PyNone = False"
| "has_iter py3 (PyBool b) = False"
| "has_iter py3 (PyInt n) = False"

text \<open>
  The elements a \<^verbatim>\<open>for\<close> loop or a comprehension draws from an object; iterating an object
  that is not iterable raises \<^verbatim>\<open>TypeError\<close>. A string yields its characters as strings
  of length one.
\<close>

fun py_iter :: "pyval \<Rightarrow> error + pyval list" where
  "py_iter (PyList xs) = Inr xs"
| "py_iter (PyTuple xs) = Inr xs"
| "py_iter (PyStr s) = Inr (map (\<lambda>c. PyStr [c]) s)"
| "py_iter PyNone = Inl (TypeError ''object is not iterable'')"
| "py_iter (PyBool b) = Inl (TypeError ''object is not iterable'')"
| "py_iter (PyInt n) = Inl (TypeError ''object is not iterable'')"

fun is_str :: "pyval \<Rightarrow> bool" where
  "is_str (PyStr s) = True"
| "is_str PyNone = False"
| "is_str (PyBool b) = False"
| "is_str (PyInt n) = False"
| "is_str (PyList xs) = False"
| "is_str (PyTuple xs) = False"

section \<open>The frame adapter\<close>

text \<open>
  An \<^verbatim>\<open>H2OFrame\<close> is a row count and named columns of cells, a missing cell being
  \<open>None\<close>. Selecting by a list of names keeps the named columns in the order of the
  list and fails on a name the frame does not have.
\<close>

type_synonym cell = "real option"

record frame =
  nrows :: nat
  cols :: "(string \<times> cell list) list"

definition columns :: "frame \<Rightarrow> string list" where
  "columns X = map fst (cols X)"

fun pick :: "(string \<times> cell list) list \<Rightarrow> string list \<Rightarrow> error + (string \<times> cell list) list" where
  "pick cs [] = Inr []"
| "pick cs (n # ns) =
     (case map_of cs n of
        None \<Rightarrow> Inl (EngineError ''column not found'')
      | Some c \<Rightarrow> (case pick cs ns of Inl e \<Rightarrow> Inl e | Inr r \<Rightarrow> Inr ((n, c) # r)))"

definition getitem :: "frame \<Rightarrow> string list \<Rightarrow> error + frame" where
  "getitem X ns = (case pick (cols X) ns of Inl e \<Rightarrow> Inl e | Inr r \<Rightarrow> Inr (X\<lparr>cols := r\<rparr>))"

definition na_count :: "cell list \<Rightarrow> nat" where
  "na_count cs = length (filter (\<lambda>c. c = None) cs)"

text \<open>\<^verbatim>\<open>X.isna().sum()\<close>: the number of missing cells of the frame.\<close>

definition isna_sum :: "frame \<Rightarrow> nat" where
  "isna_sum X = sum_list (map (\<lambda>(n, cs). na_count cs) (cols X))"

section \<open>What the selectors import\<close>

text \<open>
  The selectors call helpers of \<^verbatim>\<open>skutil.h2o.base\<close>, \<^verbatim>\<open>skutil.utils\<close> and
  \<^verbatim>\<open>skutil.feature_selection\<close> and statistics of the H2O engine. They are parameters of
  the model, collected in one record, so that a theorem about a selector holds whatever
  they compute.
\<close>

type_synonym corr = "string \<times> string \<times> real \<times> string \<times> real"

record env =
  py3 :: bool
  check_frame :: "frame \<Rightarrow> error + frame"
  frame_from_x_y :: "frame \<Rightarrow> pyval \<Rightarrow> pyval \<Rightarrow> pyval \<Rightarrow> error + frame"
  retain_features :: "frame \<Rightarrow> pyval list \<Rightarrow> string list"
  is_iterable :: "pyval \<Rightarrow> bool"
  frame_cor :: "frame \<Rightarrow> string \<Rightarrow> bool \<Rightarrow> num list list"
  frame_var_diag :: "frame \<Rightarrow> bool \<Rightarrow> string \<Rightarrow> num list"
  filter_collinearity ::
    "string list \<Rightarrow> num list list \<Rightarrow> real \<Rightarrow> error + (string list \<times> real list \<times> corr list)"
  near_zero_variance_ratio :: "cell list \<Rightarrow> real \<Rightarrow> num \<times> bool"

section \<open>Effects: the object, the log and exceptions\<close>

text \<open>
  A method runs on a state, the object \<open>self\<close> and the log of what it did to frames
  (a call of the engine's variance or correlation with its arguments) and which warnings
  it issued, and ends in an exception or a value. An exception keeps the
  state reached, as a Python object keeps the attributes assigned before a \<^verbatim>\<open>raise\<close>.
\<close>

datatype event =
    CheckFrame
  | Resolve
  | CountNA
  | Fractions
  | Variance bool string
  | Correlation string bool
  | Ratio
  | Subset
  | Warn string

type_synonym ('s, 'a) prog = "'s \<times> event list \<Rightarrow> ('s \<times> event list) \<times> (error + 'a)"

definition return :: "'a \<Rightarrow> ('s, 'a) prog" where
  "return x = (\<lambda>st. (st, Inr x))"

definition raise :: "error \<Rightarrow> ('s, 'a) prog" where
  "raise e = (\<lambda>st. (st, Inl e))"

definition bind :: "('s, 'a) prog \<Rightarrow> ('a \<Rightarrow> ('s, 'b) prog) \<Rightarrow> ('s, 'b) prog" where
  "bind m f = (\<lambda>st. case m st of (st', Inl e) \<Rightarrow> (st', Inl e) | (st', Inr x) \<Rightarrow> f x st')"

definition emit :: "event \<Rightarrow> ('s, unit) prog" where
  "emit ev = (\<lambda>(s, l). ((s, l @ [ev]), Inr ()))"

definition lift :: "error + 'a \<Rightarrow> ('s, 'a) prog" where
  "lift r = (\<lambda>st. (st, r))"

definition get_self :: "('s, 's) prog" where
  "get_self = (\<lambda>(s, l). ((s, l), Inr s))"

definition modify :: "('s \<Rightarrow> 's) \<Rightarrow> ('s, unit) prog" where
  "modify f = (\<lambda>(s, l). ((f s, l), Inr ()))"

text \<open>A frame operation that may fail: the access is logged, then its result taken.\<close>

definition touch :: "event \<Rightarrow> error + 'a \<Rightarrow> ('s, 'a) prog" where
  "touch ev r = bind (emit ev) (\<lambda>_. lift r)"

section \<open>\<^verbatim>\<open>_validate_use\<close>\<close>

definition valid_use :: "string list" where
  "valid_use = [''complete.obs'', ''all.obs'', ''everything'']"

definition validate_use :: "frame \<Rightarrow> string \<Rightarrow> bool \<Rightarrow> ('s, string) prog" where
  "validate_use X use na_warn =
     (if use \<notin> set valid_use then raise (ValueError ''expected one of valid use'')
      else if use = ''complete.obs'' then return use
      else if na_warn then
        bind (touch CountNA (Inr (isna_sum X))) (\<lambda>nasum.
          if nasum > 0 then
            bind (emit (Warn ''NA value(s) in frame; using complete.obs'')) (\<lambda>_.
              return ''complete.obs'')
          else return use)
      else return use)"

section \<open>Selectors\<close>

text \<open>
  One record holds the attributes of the four selector classes: the configuration the
  constructors store, and the attributes \<^verbatim>\<open>fit\<close> creates, absent (\<open>None\<close>) until then.
  \<^verbatim>\<open>threshold\<close> is a number, so \<^verbatim>\<open>is_numeric(thresh)\<close> holds of it.
\<close>

record selector =
  feature_names :: pyval
  target_feature :: pyval
  exclude_features :: pyval
  threshold :: real
  na_warn :: bool
  na_rm :: bool
  use :: string
  strategy :: string
  drop' :: "pyval list option"
  sparsity' :: "num list option"
  mean_abs_correlations' :: "real list option"
  correlations' :: "corr list option"
  var' :: "(string \<rightharpoonup> num) option"

subsection \<open>\<^verbatim>\<open>BaseH2OFeatureSelector.transform\<close>\<close>

definition transform :: "env \<Rightarrow> frame \<Rightarrow> (selector, frame) prog" where
  "transform env X =
     bind get_self (\<lambda>self.
       case drop' self of
         None \<Rightarrow> raise (NotFittedError ''drop_'')
       | Some d \<Rightarrow>
           bind (touch CheckFrame (check_frame env X)) (\<lambda>X1.
             touch Subset (getitem X1 (retain_features env X1 d))))"

subsection \<open>\<^verbatim>\<open>H2OFeatureDropper.fit\<close>\<close>

definition H2OFeatureDropper_fit :: "env \<Rightarrow> frame \<Rightarrow> (selector, selector) prog" where
  "H2OFeatureDropper_fit env X =
     bind get_self (\<lambda>self.
       let fn = (if feature_names self = PyNone then PyList [] else feature_names self) in
       if is_iterable env fn then
         bind (lift (py_iter fn)) (\<lambda>xs.
           bind (modify (\<lambda>s. s\<lparr>drop' := Some xs\<rparr>)) (\<lambda>_. get_self))
       else raise (ValueError ''expected iterable for feature_names''))"

subsection \<open>\<^verbatim>\<open>H2OSparseFeatureDropper.fit\<close>\<close>

text \<open>
  The missing count of a column divided by the row count, as the engine computes it: in
  double precision. A count \<open>k\<close> and a row count \<open>n\<close> with \<open>k \<le> n\<close> below \<open>2 ^ 53\<close>
  are doubles themselves, and their quotient is the double nearest to \<open>k / n\<close>, the even
  one of two that are equally near: with \<open>s\<close> such that \<open>k * 2 ^ s / n\<close> lies from
  \<open>2 ^ 52\<close> up to \<open>2 ^ 53\<close>, it is that number rounded to an integer, over \<open>2 ^ s\<close>.
  Zero by zero is NaN. A number of this model is the real value of a double, so that
  comparing two of them is comparing the doubles.
\<close>

fun bits :: "nat \<Rightarrow> nat" where
  "bits n = (if n = 0 then 0 else Suc (bits (n div 2)))"

declare bits.simps [simp del]

definition round_even :: "nat \<Rightarrow> nat \<Rightarrow> nat" where
  "round_even a b =
     (let q = a div b; r = a mod b in
      if 2 * r < b then q
      else if b < 2 * r then q + 1
      else if even q then q else q + 1)"

definition scale :: "nat \<Rightarrow> nat \<Rightarrow> nat" where
  "scale k n =
     (let s0 = 53 + bits n - bits k in
      if n * 2 ^ 53 \<le> k * 2 ^ s0 then s0 - 1 else s0)"

definition fraction :: "nat \<Rightarrow> nat \<Rightarrow> num" where
  "fraction k n =
     (if n = 0 then None
      else if k = 0 then Some 0
      else Some (real (round_even (k * 2 ^ scale k n) n) / 2 ^ scale k n))"

text \<open>A frame is well shaped when each of its columns has as many cells as it has rows.\<close>

definition well_shaped :: "frame \<Rightarrow> bool" where
  "well_shaped F = list_all (\<lambda>(n, cs). length cs = nrows F) (cols F)"

definition sparsity :: "frame \<Rightarrow> (string \<times> num) list" where
  "sparsity F = map (\<lambda>(n, cs). (n, fraction (na_count cs) (nrows F))) (cols F)"

definition H2OSparseFeatureDropper_fit :: "env \<Rightarrow> frame \<Rightarrow> (selector, selector) prog" where
  "H2OSparseFeatureDropper_fit env X =
     bind (touch CheckFrame (check_frame env X)) (\<lambda>X1.
     bind get_self (\<lambda>self.
       let thresh = threshold self in
       bind (touch Resolve (frame_from_x_y env X1 (feature_names self)
                             (target_feature self) (exclude_features self))) (\<lambda>frame.
         if \<not> (0 \<le> thresh \<and> thresh < 1) then
           raise (ValueError ''thresh must be a float between 0 (inclusive) and 1'')
         else
           bind (emit Fractions) (\<lambda>_.
             let ser = sparsity frame in
             bind (modify (\<lambda>s. s\<lparr>drop' := Some (map (PyStr \<circ> fst)
                                               (filter (\<lambda>(n, v). num_gt v thresh) ser)),
                                   sparsity' := Some (map snd ser)\<rparr>)) (\<lambda>_.
               get_self)))))"

subsection \<open>\<^verbatim>\<open>H2OMulticollinearityFilterer\<close>\<close>

definition abs_matrix :: "num list list \<Rightarrow> num list list" where
  "abs_matrix c = map (map (map_option abs)) c"

definition H2OMulticollinearityFilterer_fit_transform ::
    "env \<Rightarrow> frame \<Rightarrow> (selector, frame) prog" where
  "H2OMulticollinearityFilterer_fit_transform env X =
     bind (touch CheckFrame (check_frame env X)) (\<lambda>X1.
     bind get_self (\<lambda>self.
     bind (touch Resolve (frame_from_x_y env X1 (feature_names self)
                           (target_feature self) (exclude_features self))) (\<lambda>frame.
     bind (validate_use frame (use self) (na_warn self)) (\<lambda>use1.
     bind (emit (Correlation use1 (na_rm self))) (\<lambda>_.
       let c = abs_matrix (frame_cor env frame use1 (na_rm self)) in
       bind (lift (filter_collinearity env (columns frame) c (threshold self))) (\<lambda>(d, m, cr).
       bind (modify (\<lambda>s. s\<lparr>drop' := Some (map PyStr d),
                             mean_abs_correlations' := Some m,
                             correlations' := Some cr\<rparr>)) (\<lambda>_.
         transform env X1)))))))"

definition H2OMulticollinearityFilterer_fit ::
    "env \<Rightarrow> frame \<Rightarrow> (selector, selector) prog" where
  "H2OMulticollinearityFilterer_fit env X =
     bind (H2OMulticollinearityFilterer_fit_transform env X) (\<lambda>_. get_self)"

subsection \<open>\<^verbatim>\<open>H2ONearZeroVarianceFilterer\<close>\<close>

text \<open>\<^verbatim>\<open>dict(zip(keys, values))\<close>: a later pair replaces an earlier one with the same key.\<close>

definition dict_of :: "('k \<times> 'v) list \<Rightarrow> ('k \<rightharpoonup> 'v)" where
  "dict_of kvs = foldl (\<lambda>m (k, v). m(k \<mapsto> v)) Map.empty kvs"

text \<open>
  Indexing an array by a boolean mask keeps the entries where the mask is true; numpy
  refuses a mask of another length.
\<close>

definition mask_index :: "'a list \<Rightarrow> bool list \<Rightarrow> error + 'a list" where
  "mask_index xs bs =
     (if length bs \<noteq> length xs then Inl (IndexError ''boolean index did not match'')
      else Inr (map fst (filter snd (zip xs bs))))"

definition H2ONearZeroVarianceFilterer_fit_transform ::
    "env \<Rightarrow> frame \<Rightarrow> (selector, frame) prog" where
  "H2ONearZeroVarianceFilterer_fit_transform env X =
     bind (touch CheckFrame (check_frame env X)) (\<lambda>X1.
     bind get_self (\<lambda>self.
     bind (touch Resolve (frame_from_x_y env X1 (feature_names self)
                           (target_feature self) (exclude_features self))) (\<lambda>frame.
     bind (validate_use frame (use self) (na_warn self)) (\<lambda>use1.
       let cols1 = columns frame in
       if strategy self \<notin> set [''variance'', ''ratio''] then
         raise (ValueError ''strategy must be one of (variance, ratio)'')
       else if strategy self = ''variance'' then
         bind (emit (Variance (na_rm self) use1)) (\<lambda>_.
           let diag = frame_var_diag env frame (na_rm self) use1;
               var_mask = map (\<lambda>v. num_lt v (threshold self)) diag in
           bind (lift (mask_index cols1 var_mask)) (\<lambda>d.
           bind (modify (\<lambda>s. s\<lparr>drop' := Some (map PyStr d)\<rparr>)) (\<lambda>_.
           bind (lift (mask_index diag var_mask)) (\<lambda>vs.
           bind (modify (\<lambda>s. s\<lparr>var' := Some (dict_of (zip d vs))\<rparr>)) (\<lambda>_.
             transform env X1)))))
       else
         let ratio = threshold self in
         if \<not> ratio > 1 then
           raise (ValueError ''when strategy==ratio, threshold must be greater than 1.0'')
         else
           bind (emit Ratio) (\<lambda>_.
             let matrix = map (\<lambda>(n, cs). near_zero_variance_ratio env cs ratio) (cols frame) in
             if matrix = [] then raise (IndexError ''too many indices for array'')
             else
               let drop_mask = map snd matrix in
               bind (lift (mask_index (columns frame) drop_mask)) (\<lambda>d.
               bind (modify (\<lambda>s. s\<lparr>drop' := Some (map PyStr d)\<rparr>)) (\<lambda>_.
               bind (lift (mask_index (map fst matrix) drop_mask)) (\<lambda>vs.
               bind (modify (\<lambda>s. s\<lparr>var' := Some (dict_of (zip d vs))\<rparr>)) (\<lambda>_.
                 transform env X1)))))))))"

definition H2ONearZeroVarianceFilterer_fit ::
    "env \<Rightarrow> frame \<Rightarrow> (selector, selector) prog" where
  "H2ONearZeroVarianceFilterer_fit env X =
     bind (H2ONearZeroVarianceFilterer_fit_transform env X) (\<lambda>_. get_self)"

section \<open>\<^verbatim>\<open>H2OPipeline\<close>\<close>

subsection \<open>Steps as objects\<close>

text \<open>
  A step is an object of some class. The pipeline asks it whether it is a
  \<^verbatim>\<open>BaseH2OTransformer\<close>, whether it has the attributes \<^verbatim>\<open>train\<close> and
  \<^verbatim>\<open>fit_transform\<close>, assigns its \<^verbatim>\<open>target_feature\<close> and calls its methods with keyword
  arguments. The table of these operations is a parameter.
\<close>

type_synonym kwargs = "string \<rightharpoonup> pyval"

record 'o methods =
  is_transformer :: "'o \<Rightarrow> bool"
  has_train :: "'o \<Rightarrow> bool"
  has_fit_transform :: "'o \<Rightarrow> bool"
  set_target_feature :: "pyval \<Rightarrow> 'o \<Rightarrow> 'o"
  obj_fit_transform :: "frame \<Rightarrow> kwargs \<Rightarrow> ('o, frame) prog"
  obj_fit :: "frame \<Rightarrow> kwargs \<Rightarrow> ('o, unit) prog"
  obj_transform :: "frame \<Rightarrow> ('o, frame) prog"
  obj_train :: "frame \<Rightarrow> pyval list \<Rightarrow> pyval \<Rightarrow> kwargs \<Rightarrow> ('o, unit) prog"

text \<open>
  The \<^verbatim>\<open>feature_names\<close> of a pipeline are any object: one of the values above, or an
  iterator or generator, given by the elements it has yet to yield. An iterator is true
  whatever it will yield, has \<^verbatim>\<open>__iter__\<close>, and yields each element once: what a loop
  has drawn from it is gone.
\<close>

datatype names_arg = Val pyval | Iterator "pyval list"

fun truthy_arg :: "names_arg \<Rightarrow> bool" where
  "truthy_arg (Val v) = truthy v"
| "truthy_arg (Iterator xs) = True"

fun has_iter_arg :: "bool \<Rightarrow> names_arg \<Rightarrow> bool" where
  "has_iter_arg p3 (Val v) = has_iter p3 v"
| "has_iter_arg p3 (Iterator xs) = True"

fun iter_arg :: "names_arg \<Rightarrow> error + pyval list" where
  "iter_arg (Val v) = py_iter v"
| "iter_arg (Iterator xs) = Inr xs"

text \<open>The object after a loop over it that left \<open>rest\<close> undrawn.\<close>

fun drained :: "names_arg \<Rightarrow> pyval list \<Rightarrow> names_arg" where
  "drained (Val v) rest = Val v"
| "drained (Iterator xs) rest = Iterator rest"

record 'o pipeline =
  pipe_feature_names :: names_arg
  pipe_target_feature :: pyval
  steps :: "(string \<times> 'o) list"
  training_cols' :: "pyval list option"

subsection \<open>Construction\<close>

definition val_features :: "bool \<Rightarrow> names_arg \<Rightarrow> error + names_arg" where
  "val_features p3 x =
     (if \<not> truthy_arg x then Inl (ValueError ''invalid value for feature_names'')
      else if \<not> has_iter_arg p3 x then Inl (TypeError ''expected iterable for feature_names'')
      else Inr x)"

text \<open>
  Modelled from the spec: the constructor of \<^verbatim>\<open>BaseH2OFunctionWrapper\<close> is not among the
  sources. Version-compatibility gating is out of scope, so it stores the target
  feature and does not fail.
\<close>

definition base_init :: "pyval \<Rightarrow> 'o pipeline" where
  "base_init tf = \<lparr>pipe_feature_names = Val PyNone, pipe_target_feature = tf,
                   steps = [], training_cols' = None\<rparr>"

definition H2OPipeline_init ::
    "bool \<Rightarrow> 'o methods \<Rightarrow> (string \<times> 'o) list \<Rightarrow> names_arg \<Rightarrow> pyval \<Rightarrow> error + 'o pipeline" where
  "H2OPipeline_init p3 M stps fn tf =
     (let self = base_init tf in
      case val_features p3 fn of
        Inl e \<Rightarrow> Inl e
      | Inr fn1 \<Rightarrow>
          let self = self\<lparr>pipe_feature_names := fn1\<rparr> in
          if stps = [] then Inl (ValueError ''need more than 0 values to unpack'')
          else if \<not> distinct (map fst stps) then
            Inl (ValueError ''Provided step names are not unique'')
          else
            let self = self\<lparr>steps := stps\<rparr>;
                transforms = butlast (map snd stps);
                estimator = last (map snd stps) in
            if \<not> list_all (is_transformer M) transforms then
              Inl (TypeError ''All intermediate steps of the chain should be instances of BaseH2OTransformer'')
            else if \<not> has_train M estimator then
              Inl (TypeError ''Last step of chain should implement train'')
            else Inr self)"

subsection \<open>Routing of fit parameters\<close>

text \<open>
  \<^verbatim>\<open>pname.split('__', 1)\<close> cuts at the leftmost \<^verbatim>\<open>__\<close>; without one it returns a single
  piece and the assignment to \<^verbatim>\<open>step, param\<close> fails.
\<close>

fun split_dunder :: "string \<Rightarrow> (string \<times> string) option" where
  "split_dunder (a # b # cs) =
     (if a = CHR ''_'' \<and> b = CHR ''_'' then Some ([], cs)
      else map_option (\<lambda>(s, p). (a # s, p)) (split_dunder (b # cs)))"
| "split_dunder [a] = None"
| "split_dunder [] = None"

fun split_params ::
    "(string \<rightharpoonup> kwargs) \<Rightarrow> (string \<times> pyval) list \<Rightarrow> error + (string \<rightharpoonup> kwargs)" where
  "split_params b [] = Inr b"
| "split_params b ((pname, pval) # rest) =
     (case split_dunder pname of
        None \<Rightarrow> Inl (ValueError ''need more than 1 value to unpack'')
      | Some (step, param) \<Rightarrow>
          (case b step of
             None \<Rightarrow> Inl (KeyError step)
           | Some d \<Rightarrow> split_params (b(step \<mapsto> d(param \<mapsto> pval))) rest))"

definition lookup :: "('k \<rightharpoonup> 'v) \<Rightarrow> 'k \<Rightarrow> string \<Rightarrow> error + 'v" where
  "lookup d k msg = (case d k of None \<Rightarrow> Inl (KeyError msg) | Some v \<Rightarrow> Inr v)"

text \<open>A method of the step at position \<open>i\<close>, run on that step within the pipeline.\<close>

definition on_step :: "nat \<Rightarrow> ('o, 'a) prog \<Rightarrow> ('o pipeline, 'a) prog" where
  "on_step i m =
     (\<lambda>(p, l). case m (snd (steps p ! i), l) of
                 ((ob, l'), r) \<Rightarrow> ((p\<lparr>steps := (steps p)[i := (fst (steps p ! i), ob)]\<rparr>, l'), r))"

fun run_transforms ::
    "'o methods \<Rightarrow> (string \<rightharpoonup> kwargs) \<Rightarrow> nat list \<Rightarrow> frame \<Rightarrow> ('o pipeline, frame) prog" where
  "run_transforms M b [] frameT = return frameT"
| "run_transforms M b (i # is) frameT =
     bind get_self (\<lambda>self.
       let name = fst (steps self ! i) in
       bind (on_step i (modify (set_target_feature M (pipe_target_feature self)))) (\<lambda>_.
       bind get_self (\<lambda>self1.
       bind (if has_fit_transform M (snd (steps self1 ! i)) then
               bind (lift (lookup b name name)) (\<lambda>params.
                 on_step i (obj_fit_transform M frameT params))
             else
               bind (lift (lookup b name name)) (\<lambda>params.
               bind (on_step i (obj_fit M frameT params)) (\<lambda>_.
                 on_step i (obj_transform M frameT)))) (\<lambda>frameT'.
         run_transforms M b is frameT'))))"

definition pre_transform ::
    "'o methods \<Rightarrow> frame \<Rightarrow> (string \<times> pyval) list \<Rightarrow> ('o pipeline, frame \<times> kwargs) prog" where
  "pre_transform M frame fit_params =
     bind get_self (\<lambda>self.
       let fit_params_steps0 = dict_of (map (\<lambda>(step, ob). (step, Map.empty)) (steps self)) in
       bind (lift (split_params fit_params_steps0 fit_params)) (\<lambda>fit_params_steps.
       bind (run_transforms M fit_params_steps [0 ..< length (steps self) - 1] frame) (\<lambda>frameT.
         if steps self = [] then raise (IndexError ''list index out of range'')
         else
           bind (lift (lookup fit_params_steps (fst (last (steps self)))
                              (fst (last (steps self))))) (\<lambda>final.
             return (frameT, final)))))"

subsection \<open>\<^verbatim>\<open>fit\<close>\<close>

definition reset :: "('o pipeline, unit) prog" where
  "reset = modify (\<lambda>s. s\<lparr>training_cols' := None\<rparr>)"

text \<open>
  The loop over the feature names: a name that is true and holds an element that is not
  a string is refused; drawing the elements of a name that is not iterable fails.
\<close>

fun check_names :: "pyval list \<Rightarrow> error + unit" where
  "check_names [] = Inr ()"
| "check_names (n # ns) =
     (if truthy n then
        (case py_iter n of
           Inl e \<Rightarrow> Inl e
         | Inr is \<Rightarrow>
             if \<not> list_all is_str is then
               Inl (TypeError ''feature_names must be a list of strings'')
             else check_names ns)
      else check_names ns)"

text \<open>The feature names the loop has not drawn when it ends, normally or by raising.\<close>

fun check_rest :: "pyval list \<Rightarrow> pyval list" where
  "check_rest [] = []"
| "check_rest (n # ns) =
     (if truthy n then
        (case py_iter n of
           Inl e \<Rightarrow> ns
         | Inr is \<Rightarrow> if \<not> list_all is_str is then ns else check_rest ns)
      else check_rest ns)"

fun the_str :: "pyval \<Rightarrow> string" where
  "the_str (PyStr s) = s"
| "the_str v = []"

text \<open>
  \<^verbatim>\<open>frame[xy]\<close> for a list of column names. What the engine does with a selector that
  holds another object is not part of the model and counts as a failure of the engine.
\<close>

definition getitem_py :: "frame \<Rightarrow> pyval list \<Rightarrow> error + frame" where
  "getitem_py X xs =
     (if list_all is_str xs then getitem X (map the_str xs)
      else Inl (EngineError ''selector is not a list of names''))"

text \<open>
  \<^verbatim>\<open>def fit(self, frame=None)\<close> has no parameter for further keywords: a call that
  supplies one raises \<^verbatim>\<open>TypeError\<close> before the body runs. The body hands
  \<^verbatim>\<open>_pre_transform\<close> the empty dictionary. It runs over the feature names twice, in the
  loop that checks them and in the comprehension that builds \<^verbatim>\<open>xy\<close>; an iterator has
  nothing left for the second.
\<close>

definition H2OPipeline_fit ::
    "'o methods \<Rightarrow> frame \<Rightarrow> (string \<times> pyval) list \<Rightarrow> ('o pipeline, 'o pipeline) prog" where
  "H2OPipeline_fit M frame kw =
     (if kw \<noteq> [] then raise (TypeError ''fit() got an unexpected keyword argument'')
      else
        bind reset (\<lambda>_.
        bind get_self (\<lambda>self.
          let x = pipe_feature_names self; y = pipe_target_feature self in
          if \<not> is_str y then raise (TypeError ''target_feature should be a single string'')
          else
            bind (lift (iter_arg x)) (\<lambda>xs.
            bind (modify (\<lambda>s. s\<lparr>pipe_feature_names := drained x (check_rest xs)\<rparr>)) (\<lambda>_.
            bind (lift (check_names xs)) (\<lambda>_.
            bind get_self (\<lambda>self2.
            bind (lift (iter_arg (pipe_feature_names self2))) (\<lambda>ps.
            bind (modify (\<lambda>s. s\<lparr>pipe_feature_names :=
                                  drained (pipe_feature_names self2) []\<rparr>)) (\<lambda>_.
              let xy = ps @ [y] in
              bind (touch Subset (getitem_py frame xy)) (\<lambda>frame1.
              bind (pre_transform M frame1 []) (\<lambda>(Xt, fit_params).
                let training_cols = map PyStr (columns Xt);
                    tc = filter (\<lambda>n. \<not> (n = y)) training_cols in
                bind (modify (\<lambda>s. s\<lparr>training_cols' := Some tc\<rparr>)) (\<lambda>_.
                  if training_cols = [] then raise (ValueError ''no columns retained after fit!'')
                  else
                    bind get_self (\<lambda>self1.
                    bind (on_step (length (steps self1) - 1)
                            (obj_train M Xt tc y fit_params)) (\<lambda>_.
                      get_self))))))))))))))"

section \<open>A reference environment\<close>

text \<open>
  The theorems below hold for every environment. To run the selectors on concrete frames
  the helpers that are not among the sources are given the behaviour the specification
  describes, and the engine's statistics simple stand-ins.
\<close>

text \<open>
  Modelled from the spec: \<^verbatim>\<open>check_frame\<close> of \<^verbatim>\<open>skutil.h2o.base\<close> is not among the
  sources. The selector base validates its input; an input of this model is a frame,
  so the check passes, and with \<^verbatim>\<open>copy=False\<close> the frame itself is returned.
\<close>

definition check_frame_spec :: "frame \<Rightarrow> error + frame" where
  "check_frame_spec X = Inr X"

fun strs_of :: "pyval list \<Rightarrow> string list option" where
  "strs_of [] = Some []"
| "strs_of (PyStr s # xs) = map_option ((#) s) (strs_of xs)"
| "strs_of (v # xs) = None"

text \<open>The names an optional list of names holds: none for \<^verbatim>\<open>None\<close>.\<close>

fun names_opt :: "pyval \<Rightarrow> string list option" where
  "names_opt PyNone = Some []"
| "names_opt (PyList xs) = strs_of xs"
| "names_opt (PyTuple xs) = strs_of xs"
| "names_opt (PyStr s) = Some [s]"
| "names_opt v = None"

text \<open>
  Modelled from the spec: \<^verbatim>\<open>_frame_from_x_y\<close> of \<^verbatim>\<open>skutil.h2o.base\<close> is not among the
  sources. The candidate columns are the feature names, or all columns when none are
  given, without the excluded features and without the target feature; exactly those
  columns are selected from the frame.
\<close>

definition frame_from_x_y_spec :: "frame \<Rightarrow> pyval \<Rightarrow> pyval \<Rightarrow> pyval \<Rightarrow> error + frame" where
  "frame_from_x_y_spec X fn tf ef =
     (case (names_opt fn, names_opt tf, names_opt ef) of
        (Some x, Some y, Some ex) \<Rightarrow>
          getitem X (filter (\<lambda>n. n \<notin> set ex \<and> n \<notin> set y)
                            (if truthy fn then x else columns X))
      | _ \<Rightarrow> Inl (TypeError ''expected names''))"

text \<open>
  Modelled from the spec: \<^verbatim>\<open>_retain_features\<close> of \<^verbatim>\<open>skutil.h2o.base\<close> is not among the
  sources. A transform keeps the columns of the frame that are not in \<^verbatim>\<open>drop_\<close>, in
  the frame's order.
\<close>

definition retain_features_spec :: "frame \<Rightarrow> pyval list \<Rightarrow> string list" where
  "retain_features_spec X exclude = filter (\<lambda>x. PyStr x \<notin> set exclude) (columns X)"

text \<open>
  Modelled from the spec: \<^verbatim>\<open>is_iterable\<close> of \<^verbatim>\<open>skutil.utils.fixes\<close> is not among the
  sources. A list or a tuple is an iterable of names; a string or a scalar is not.
\<close>

fun is_iterable_spec :: "pyval \<Rightarrow> bool" where
  "is_iterable_spec (PyList xs) = True"
| "is_iterable_spec (PyTuple xs) = True"
| "is_iterable_spec v = False"

text \<open>The sample variance of the cells that are present; NaN below two of them.\<close>

definition present :: "cell list \<Rightarrow> real list" where
  "present cs = map the (filter (\<lambda>c. c \<noteq> None) cs)"

definition sample_var :: "cell list \<Rightarrow> num" where
  "sample_var cs =
     (let xs = present cs; n = length xs in
      if n < 2 then None
      else let m = sum_list xs / real n in
           Some (sum_list (map (\<lambda>x. (x - m) * (x - m)) xs) / real (n - 1)))"

definition ref_env :: env where
  "ref_env = \<lparr>py3 = False,
              check_frame = check_frame_spec,
              frame_from_x_y = frame_from_x_y_spec,
              retain_features = retain_features_spec,
              is_iterable = is_iterable_spec,
              frame_cor = (\<lambda>F u r. map (\<lambda>c. map (\<lambda>d. None) (cols F)) (cols F)),
              frame_var_diag = (\<lambda>F r u. map (\<lambda>(n, cs). sample_var cs) (cols F)),
              filter_collinearity = (\<lambda>ns c t. Inr ([], [], [])),
              near_zero_variance_ratio = (\<lambda>cs t. (None, False))\<rparr>"

text \<open>A selector as its constructor leaves it: the configuration, and nothing fitted.\<close>

definition new_selector :: "pyval \<Rightarrow> real \<Rightarrow> selector" where
  "new_selector fn t =
     \<lparr>feature_names = fn, target_feature = PyNone, exclude_features = PyNone,
      threshold = t, na_warn = True, na_rm = False, use = ''complete.obs'',
      strategy = ''variance'', drop' = None, sparsity' = None,
      mean_abs_correlations' = None, correlations' = None, var' = None\<rparr>"

subsection \<open>The classes as pipeline steps\<close>

datatype kind = FeatureDropper | SparseFeatureDropper | MulticollinearityFilterer
  | NearZeroVarianceFilterer

text \<open>
  A step object is a selector of one of the four classes, an estimator, or some other
  object. The estimator belongs to H2O; here its \<^verbatim>\<open>train\<close> only records the arguments
  of each call.
\<close>

datatype obj =
    Sel kind selector
  | Est "(frame \<times> pyval list \<times> pyval \<times> kwargs) list"
  | Plain

definition as_sel :: "(kind \<Rightarrow> (selector, 'a) prog) \<Rightarrow> (obj, 'a) prog" where
  "as_sel m =
     (\<lambda>(ob, l). case ob of
        Sel k s \<Rightarrow> (case m k (s, l) of ((s', l'), r) \<Rightarrow> ((Sel k s', l'), r))
      | Est c \<Rightarrow> ((ob, l), Inl (TypeError ''object has no such method''))
      | Plain \<Rightarrow> ((ob, l), Inl (TypeError ''object has no such method'')))"

definition ignore :: "('s, 'a) prog \<Rightarrow> ('s, unit) prog" where
  "ignore m = bind m (\<lambda>_. return ())"

text \<open>
  No method of a selector takes keyword arguments, so a call with any fails.
  \<^verbatim>\<open>fit_transform\<close> is defined by the two filterers; for the two droppers the
  pipeline's other branch, \<^verbatim>\<open>fit\<close> then \<^verbatim>\<open>transform\<close>, is taken.
\<close>

definition no_kwargs :: "kwargs \<Rightarrow> ('s, 'a) prog \<Rightarrow> ('s, 'a) prog" where
  "no_kwargs kw m =
     (if kw = Map.empty then m else raise (TypeError ''got an unexpected keyword argument''))"

fun sel_fit :: "env \<Rightarrow> frame \<Rightarrow> kind \<Rightarrow> (selector, unit) prog" where
  "sel_fit env X FeatureDropper = ignore (H2OFeatureDropper_fit env X)"
| "sel_fit env X SparseFeatureDropper = ignore (H2OSparseFeatureDropper_fit env X)"
| "sel_fit env X MulticollinearityFilterer = ignore (H2OMulticollinearityFilterer_fit env X)"
| "sel_fit env X NearZeroVarianceFilterer = ignore (H2ONearZeroVarianceFilterer_fit env X)"

fun sel_fit_transform :: "env \<Rightarrow> frame \<Rightarrow> kind \<Rightarrow> (selector, frame) prog" where
  "sel_fit_transform env X MulticollinearityFilterer =
     H2OMulticollinearityFilterer_fit_transform env X"
| "sel_fit_transform env X NearZeroVarianceFilterer =
     H2ONearZeroVarianceFilterer_fit_transform env X"
| "sel_fit_transform env X k = bind (sel_fit env X k) (\<lambda>_. transform env X)"

definition class_table :: "env \<Rightarrow> obj methods" where
  "class_table env =
     \<lparr>is_transformer = (\<lambda>ob. case ob of Sel k s \<Rightarrow> True | _ \<Rightarrow> False),
      has_train = (\<lambda>ob. case ob of Est c \<Rightarrow> True | _ \<Rightarrow> False),
      has_fit_transform =
        (\<lambda>ob. case ob of
                Sel k s \<Rightarrow> k = MulticollinearityFilterer \<or> k = NearZeroVarianceFilterer
              | _ \<Rightarrow> False),
      set_target_feature =
        (\<lambda>tf ob. case ob of Sel k s \<Rightarrow> Sel k (s\<lparr>target_feature := tf\<rparr>) | _ \<Rightarrow> ob),
      obj_fit_transform = (\<lambda>X kw. no_kwargs kw (as_sel (sel_fit_transform env X))),
      obj_fit = (\<lambda>X kw. no_kwargs kw (as_sel (sel_fit env X))),
      obj_transform = (\<lambda>X. as_sel (\<lambda>k. transform env X)),
      obj_train =
        (\<lambda>X x y kw (ob, l).
           case ob of
             Est c \<Rightarrow> ((Est (c @ [(X, x, y, kw)]), l), Inr ())
           | _ \<Rightarrow> ((ob, l), Inl (TypeError ''object has no attribute train'')))\<rparr>"

subsection \<open>The routing convention in the specification's words\<close>

text \<open>
  The bucket of a step holds, under its parameter name, the value of every supplied
  parameter named \<^verbatim>\<open>stepname__paramname\<close>, the step name being what stands before
  the leftmost \<^verbatim>\<open>__\<close>.
\<close>

definition routed :: "string \<times> pyval \<Rightarrow> string \<Rightarrow> (string \<times> pyval) list" where
  "routed kv step =
     (case split_dunder (fst kv) of
        None \<Rightarrow> []
      | Some (s, p) \<Rightarrow> if s = step then [(p, snd kv)] else [])"

definition bucket_of :: "(string \<times> pyval) list \<Rightarrow> string \<Rightarrow> kwargs" where
  "bucket_of kw step = dict_of (concat (map (\<lambda>kv. routed kv step) kw))"

definition buckets_of :: "string list \<Rightarrow> (string \<times> pyval) list \<Rightarrow> (string \<rightharpoonup> kwargs)" where
  "buckets_of names kw = (\<lambda>s. if s \<in> set names then Some (bucket_of kw s) else None)"

definition well_named :: "string list \<Rightarrow> (string \<times> pyval) list \<Rightarrow> bool" where
  "well_named names kw =
     list_all (\<lambda>kv. case split_dunder (fst kv) of
                      None \<Rightarrow> False
                    | Some (s, p) \<Rightarrow> s \<in> set names) kw"

section \<open>Example data\<close>

text \<open>
  A frame of four rows: column \<open>a\<close> misses three cells of four, \<open>b\<close> two of four,
  \<open>c\<close> is constant, and \<open>y\<close> is the target. \<open>cand0\<close> is its candidate frame, the
  frame without the target.
\<close>

definition frame0 :: frame where
  "frame0 = \<lparr>nrows = 4,
             cols = [(''a'', [Some 1, None, None, None]),
                     (''b'', [Some 1, Some 2, None, None]),
                     (''c'', [Some 3, Some 3, Some 3, Some 3]),
                     (''y'', [Some 0, Some 1, Some 0, Some 1])]\<rparr>"

definition cand0 :: frame where
  "cand0 = \<lparr>nrows = 4,
             cols = [(''a'', [Some 1, None, None, None]),
                     (''b'', [Some 1, Some 2, None, None]),
                     (''c'', [Some 3, Some 3, Some 3, Some 3])]\<rparr>"

definition sel0 :: "real \<Rightarrow> selector" where
  "sel0 t = (new_selector PyNone t)\<lparr>target_feature := PyStr ''y''\<rparr>"

text \<open>
  A pipeline of a feature dropper for \<open>a\<close> and an estimator, with \<open>a\<close> as its only
  feature and \<open>y\<close> as its target.
\<close>

definition steps0 :: "(string \<times> obj) list" where
  "steps0 = [(''drop'', Sel FeatureDropper (new_selector (PyList [PyStr ''a'']) 0)),
             (''model'', Est [])]"

definition pipe0 :: "obj pipeline" where
  "pipe0 = \<lparr>pipe_feature_names = Val (PyList [PyStr ''a'']), pipe_target_feature = PyStr ''y'',
            steps = steps0, training_cols' = None\<rparr>"

text \<open>
  The dropper of that pipeline once fitted, the frame that then reaches the estimator,
  and a fit parameter named for the estimator step.
\<close>

definition dropped0 :: selector where
  "dropped0 = (new_selector (PyList [PyStr ''a'']) 0)\<lparr>target_feature := PyStr ''y'',
                 drop' := Some [PyStr ''a'']\<rparr>"

definition Xt0 :: frame where
  "Xt0 = \<lparr>nrows = 4, cols = [(''y'', [Some 0, Some 1, Some 0, Some 1])]\<rparr>"

definition kw0 :: "(string \<times> pyval) list" where
  "kw0 = [(''model__ntrees'', PyInt 5)]"

text \<open>
  The double \<^verbatim>\<open>0.3333333333333333\<close>, and a frame of three rows whose only column
  misses one cell.
\<close>

definition third :: real where
  "third = 6004799503160661 / 18014398509481984"

definition frame3 :: frame where
  "frame3 = \<lparr>nrows = 3, cols = [(''p'', [Some 1, None, Some 2])]\<rparr>"

section \<open>Properties\<close>

subsection \<open>Running the effects\<close>

lemmas prog_defs = bind_def return_def raise_def emit_def lift_def get_self_def modify_def touch_def

lemma validate_use_cases:
  "validate_use X u nw (s, l) =
     (if u \<notin> set valid_use then ((s, l), Inl (ValueError ''expected one of valid use''))
      else if u = ''complete.obs'' \<or> \<not> nw then ((s, l), Inr u)
      else if isna_sum X > 0 then
        ((s, l @ [CountNA, Warn ''NA value(s) in frame; using complete.obs'']), Inr ''complete.obs'')
      else ((s, l @ [CountNA]), Inr u))"
  by (simp add: validate_use_def prog_defs)

lemma fit_state_MCF:
  "fst (H2OMulticollinearityFilterer_fit env X st) =
   fst (H2OMulticollinearityFilterer_fit_transform env X st)"
  by (simp add: H2OMulticollinearityFilterer_fit_def bind_def get_self_def
           split: prod.splits sum.splits)

lemma fit_state_NZV:
  "fst (H2ONearZeroVarianceFilterer_fit env X st) =
   fst (H2ONearZeroVarianceFilterer_fit_transform env X st)"
  by (simp add: H2ONearZeroVarianceFilterer_fit_def bind_def get_self_def
           split: prod.splits sum.splits)

lemma fit_result_MCF:
  "snd (H2OMulticollinearityFilterer_fit env X st) =
     (case snd (H2OMulticollinearityFilterer_fit_transform env X st) of
        Inl e \<Rightarrow> Inl e
      | Inr F \<Rightarrow> Inr (fst (fst (H2OMulticollinearityFilterer_fit_transform env X st))))"
  by (simp add: H2OMulticollinearityFilterer_fit_def bind_def get_self_def
           split: prod.splits sum.splits)

lemma fit_result_NZV:
  "snd (H2ONearZeroVarianceFilterer_fit env X st) =
     (case snd (H2ONearZeroVarianceFilterer_fit_transform env X st) of
        Inl e \<Rightarrow> Inl e
      | Inr F \<Rightarrow> Inr (fst (fst (H2ONearZeroVarianceFilterer_fit_transform env X st))))"
  by (simp add: H2ONearZeroVarianceFilterer_fit_def bind_def get_self_def
           split: prod.splits sum.splits)

lemma transform_log: "\<exists>l'. snd (fst (transform env X (s, l))) = l @ l'"
  by (simp add: transform_def prog_defs split: option.splits sum.splits)

lemma MCF_unfold:
  assumes "check_frame env X = Inr X1"
    and "frame_from_x_y env X1 (feature_names s) (target_feature s) (exclude_features s) = Inr F"
  shows "H2OMulticollinearityFilterer_fit_transform env X (s, l) =
     (case validate_use F (use s) (na_warn s) (s, l @ [CheckFrame, Resolve]) of
        (st', Inl e) \<Rightarrow> (st', Inl e)
      | ((s', l'), Inr u1) \<Rightarrow>
          (case filter_collinearity env (columns F)
                  (abs_matrix (frame_cor env F u1 (na_rm s))) (threshold s) of
             Inl e \<Rightarrow> ((s, l' @ [Correlation u1 (na_rm s)]), Inl e)
           | Inr (d, m, cr) \<Rightarrow>
               transform env X1
                 (s\<lparr>drop' := Some (map PyStr d), mean_abs_correlations' := Some m,
                    correlations' := Some cr\<rparr>, l' @ [Correlation u1 (na_rm s)])))"
  using assms
  by (simp add: H2OMulticollinearityFilterer_fit_transform_def prog_defs validate_use_cases
           split: prod.splits sum.splits)

lemma MCF_log:
  assumes "check_frame env X = Inr X1"
    and "frame_from_x_y env X1 (feature_names s) (target_feature s) (exclude_features s) = Inr F"
    and "validate_use F (use s) (na_warn s) (s, l @ [CheckFrame, Resolve]) = ((s, l1), Inr u1)"
  shows "\<exists>l'. snd (fst (H2OMulticollinearityFilterer_fit_transform env X (s, l))) =
               l1 @ [Correlation u1 (na_rm s)] @ l'"
proof (cases "filter_collinearity env (columns F)
                  (abs_matrix (frame_cor env F u1 (na_rm s))) (threshold s)")
  case (Inl e)
  then show ?thesis using assms by (simp add: MCF_unfold)
next
  case (Inr r)
  obtain d m cr where r: "r = (d, m, cr)" by (cases r) auto
  obtain l' where "snd (fst (transform env X1
                 (s\<lparr>drop' := Some (map PyStr d), mean_abs_correlations' := Some m,
                    correlations' := Some cr\<rparr>, l1 @ [Correlation u1 (na_rm s)]))) =
         (l1 @ [Correlation u1 (na_rm s)]) @ l'"
    using transform_log by blast
  then show ?thesis using assms Inr r by (simp add: MCF_unfold)
qed

lemma dict_of_foldl:
  "foldl (\<lambda>m (k, v). m(k \<mapsto> v)) m0 kvs = m0 ++ map_of (rev kvs)"
  by (induction kvs arbitrary: m0) (auto simp: map_add_def fun_eq_iff split: option.splits)

lemma dict_of_rev: "dict_of kvs = map_of (rev kvs)"
  by (simp add: dict_of_def dict_of_foldl)

lemma dict_of_distinct:
  assumes "distinct (map fst kvs)"
  shows "dict_of kvs k = Some v \<longleftrightarrow> (k, v) \<in> set kvs"
proof -
  have "distinct (map fst (rev kvs))" using assms by (simp add: rev_map[symmetric])
  then have "map_of (rev kvs) k = Some v \<longleftrightarrow> (k, v) \<in> set (rev kvs)"
    by (rule map_of_eq_Some_iff)
  then show ?thesis by (simp add: dict_of_rev)
qed

lemma mask_names:
  "length xs = length ys \<Longrightarrow>
   map fst (filter snd (zip xs (map P ys))) = map fst (filter (\<lambda>(x, y). P y) (zip xs ys))"
  by (induction xs ys rule: list_induct2) auto

lemma mask_values:
  "length xs = length ys \<Longrightarrow>
   map fst (filter snd (zip ys (map P ys))) = map snd (filter (\<lambda>(x, y). P y) (zip xs ys))"
  by (induction xs ys rule: list_induct2) auto

lemma NZV_variance:
  assumes cf: "check_frame env X = Inr X1"
    and ff: "frame_from_x_y env X1 (feature_names s) (target_feature s) (exclude_features s) = Inr F"
    and vu: "validate_use F (use s) (na_warn s) (s, l @ [CheckFrame, Resolve]) = ((s, l1), Inr u1)"
    and st: "strategy s = ''variance''"
    and len: "length (frame_var_diag env F (na_rm s) u1) = length (cols F)"
  shows "H2ONearZeroVarianceFilterer_fit_transform env X (s, l) =
     (let Z = filter (\<lambda>(n, v). num_lt v (threshold s))
                (zip (columns F) (frame_var_diag env F (na_rm s) u1)) in
      transform env X1
        (s\<lparr>drop' := Some (map PyStr (map fst Z)), var' := Some (dict_of Z)\<rparr>,
         l1 @ [Variance (na_rm s) u1]))"
proof -
  let ?diag = "frame_var_diag env F (na_rm s) u1"
  let ?P = "\<lambda>v. num_lt v (threshold s)"
  let ?Z = "filter (\<lambda>(n, v). ?P v) (zip (columns F) ?diag)"
  have l2: "length (columns F) = length ?diag" using len by (simp add: columns_def)
  have m1: "mask_index (columns F) (map ?P ?diag) = Inr (map fst ?Z)"
    using l2 by (simp add: mask_index_def mask_names)
  have m2: "mask_index ?diag (map ?P ?diag) = Inr (map snd ?Z)"
    using l2 by (simp add: mask_index_def mask_values[of "columns F"])
  have z: "zip (map fst ?Z) (map snd ?Z) = ?Z" by (simp add: zip_map_fst_snd)
  show ?thesis
    using cf ff vu st m1 m2 z
    by (simp add: H2ONearZeroVarianceFilterer_fit_transform_def prog_defs Let_def)
qed

lemma NZV_errors:
  assumes cf: "check_frame env X = Inr X1"
    and ff: "frame_from_x_y env X1 (feature_names s) (target_feature s) (exclude_features s) = Inr F"
  shows "use s \<notin> set valid_use \<Longrightarrow>
           H2ONearZeroVarianceFilterer_fit_transform env X (s, l) =
             ((s, l @ [CheckFrame, Resolve]), Inl (ValueError ''expected one of valid use''))"
    and "validate_use F (use s) (na_warn s) (s, l @ [CheckFrame, Resolve]) = ((s, l1), Inr u1) \<Longrightarrow>
         strategy s \<noteq> ''variance'' \<Longrightarrow> strategy s \<noteq> ''ratio'' \<Longrightarrow>
           H2ONearZeroVarianceFilterer_fit_transform env X (s, l) =
             ((s, l1), Inl (ValueError ''strategy must be one of (variance, ratio)''))"
    and "validate_use F (use s) (na_warn s) (s, l @ [CheckFrame, Resolve]) = ((s, l1), Inr u1) \<Longrightarrow>
         strategy s = ''ratio'' \<Longrightarrow> threshold s \<le> 1 \<Longrightarrow>
           H2ONearZeroVarianceFilterer_fit_transform env X (s, l) =
             ((s, l1), Inl (ValueError ''when strategy==ratio, threshold must be greater than 1.0''))"
  using cf ff
  by (simp_all add: H2ONearZeroVarianceFilterer_fit_transform_def prog_defs validate_use_cases Let_def)

lemma NZV_variance_log:
  assumes cf: "check_frame env X = Inr X1"
    and ff: "frame_from_x_y env X1 (feature_names s) (target_feature s) (exclude_features s) = Inr F"
    and vu: "validate_use F (use s) (na_warn s) (s, l @ [CheckFrame, Resolve]) = ((s, l1), Inr u1)"
    and st: "strategy s = ''variance''"
  shows "\<exists>l'. snd (fst (H2ONearZeroVarianceFilterer_fit_transform env X (s, l))) =
               l1 @ [Variance (na_rm s) u1] @ l'"
proof -
  let ?diag = "frame_var_diag env F (na_rm s) u1"
  let ?bs = "map (\<lambda>v. num_lt v (threshold s)) ?diag"
  show ?thesis
  proof (cases "mask_index (columns F) ?bs")
    case (Inl e)
    then show ?thesis using cf ff vu st
      by (simp add: H2ONearZeroVarianceFilterer_fit_transform_def prog_defs Let_def)
  next
    case d: (Inr d)
    show ?thesis
    proof (cases "mask_index ?diag ?bs")
      case (Inl e)
      then show ?thesis using cf ff vu st d
        by (simp add: H2ONearZeroVarianceFilterer_fit_transform_def prog_defs Let_def)
    next
      case (Inr vs)
      obtain l' where "snd (fst (transform env X1
          (s\<lparr>drop' := Some (map PyStr d), var' := Some (dict_of (zip d vs))\<rparr>,
           l1 @ [Variance (na_rm s) u1]))) = (l1 @ [Variance (na_rm s) u1]) @ l'"
        using transform_log by blast
      then show ?thesis using cf ff vu st d Inr
        by (simp add: H2ONearZeroVarianceFilterer_fit_transform_def prog_defs Let_def)
    qed
  qed
qed

text \<open>
  C6. When an \<^verbatim>\<open>H2OMulticollinearityFilterer\<close> or an \<^verbatim>\<open>H2ONearZeroVarianceFilterer\<close>
  is fitted on a frame whose candidate frame \<open>F\<close> resolves: a \<^verbatim>\<open>use\<close> outside the three
  valid values raises the validation error; if \<^verbatim>\<open>use\<close> is valid and not
  \<^verbatim>\<open>complete.obs\<close>, \<^verbatim>\<open>na_warn\<close> is true and \<open>F\<close> holds a missing cell,
  \<^verbatim>\<open>_validate_use\<close> warns and returns \<^verbatim>\<open>complete.obs\<close>, and that is the policy the
  engine's correlation or variance is called with; with \<^verbatim>\<open>na_warn\<close> false the caller's
  \<^verbatim>\<open>use\<close> is returned and passed on unchanged, with no warning and no count of missing
  cells.
\<close>

theorem use_policy:
  assumes cf: "check_frame env X = Inr X1"
    and ff: "frame_from_x_y env X1 (feature_names s) (target_feature s) (exclude_features s) = Inr F"
  shows "(use s \<notin> set valid_use \<longrightarrow>
            snd (H2OMulticollinearityFilterer_fit env X (s, l)) =
              Inl (ValueError ''expected one of valid use'') \<and>
            snd (H2ONearZeroVarianceFilterer_fit env X (s, l)) =
              Inl (ValueError ''expected one of valid use''))
      \<and> (use s \<in> set valid_use \<and> use s \<noteq> ''complete.obs'' \<and> na_warn s \<and> isna_sum F > 0 \<longrightarrow>
            validate_use F (use s) (na_warn s) (s, l0) =
              ((s, l0 @ [CountNA, Warn ''NA value(s) in frame; using complete.obs'']),
               Inr ''complete.obs'') \<and>
            (\<exists>l'. snd (fst (H2OMulticollinearityFilterer_fit env X (s, l))) =
                   (l @ [CheckFrame, Resolve, CountNA,
                         Warn ''NA value(s) in frame; using complete.obs'']) @
                   [Correlation ''complete.obs'' (na_rm s)] @ l') \<and>
            (strategy s = ''variance'' \<longrightarrow>
               (\<exists>l'. snd (fst (H2ONearZeroVarianceFilterer_fit env X (s, l))) =
                   (l @ [CheckFrame, Resolve, CountNA,
                         Warn ''NA value(s) in frame; using complete.obs'']) @
                   [Variance (na_rm s) ''complete.obs''] @ l')))
      \<and> (use s \<in> set valid_use \<and> \<not> na_warn s \<longrightarrow>
            validate_use F (use s) (na_warn s) (s, l0) = ((s, l0), Inr (use s)) \<and>
            (\<exists>l'. snd (fst (H2OMulticollinearityFilterer_fit env X (s, l))) =
                   (l @ [CheckFrame, Resolve]) @ [Correlation (use s) (na_rm s)] @ l') \<and>
            (strategy s = ''variance'' \<longrightarrow>
               (\<exists>l'. snd (fst (H2ONearZeroVarianceFilterer_fit env X (s, l))) =
                   (l @ [CheckFrame, Resolve]) @ [Variance (na_rm s) (use s)] @ l')))"
proof (intro conjI impI)
  assume bad: "use s \<notin> set valid_use"
  show "snd (H2OMulticollinearityFilterer_fit env X (s, l)) =
          Inl (ValueError ''expected one of valid use'')"
    using bad by (simp add: fit_result_MCF MCF_unfold[OF cf ff] validate_use_cases)
  show "snd (H2ONearZeroVarianceFilterer_fit env X (s, l)) =
          Inl (ValueError ''expected one of valid use'')"
    using bad by (simp add: fit_result_NZV NZV_errors(1)[OF cf ff])
next
  assume a: "use s \<in> set valid_use \<and> use s \<noteq> ''complete.obs'' \<and> na_warn s \<and> 0 < isna_sum F"
  show "validate_use F (use s) (na_warn s) (s, l0) =
          ((s, l0 @ [CountNA, Warn ''NA value(s) in frame; using complete.obs'']),
           Inr ''complete.obs'')"
    using a by (simp add: validate_use_cases)
  have vu: "validate_use F (use s) (na_warn s) (s, l @ [CheckFrame, Resolve]) =
      ((s, l @ [CheckFrame, Resolve, CountNA,
                Warn ''NA value(s) in frame; using complete.obs'']), Inr ''complete.obs'')"
    using a by (simp add: validate_use_cases)
  show "\<exists>l'. snd (fst (H2OMulticollinearityFilterer_fit env X (s, l))) =
                   (l @ [CheckFrame, Resolve, CountNA,
                         Warn ''NA value(s) in frame; using complete.obs'']) @
                   [Correlation ''complete.obs'' (na_rm s)] @ l'"
    using MCF_log[OF cf ff vu] by (simp add: fit_state_MCF)
  show "\<exists>l'. snd (fst (H2ONearZeroVarianceFilterer_fit env X (s, l))) =
                   (l @ [CheckFrame, Resolve, CountNA,
                         Warn ''NA value(s) in frame; using complete.obs'']) @
                   [Variance (na_rm s) ''complete.obs''] @ l'"
    if "strategy s = ''variance''"
    using NZV_variance_log[OF cf ff vu that] by (simp add: fit_state_NZV)
next
  assume a: "use s \<in> set valid_use \<and> \<not> na_warn s"
  show "validate_use F (use s) (na_warn s) (s, l0) = ((s, l0), Inr (use s))"
    using a by (simp add: validate_use_cases)
  have vu: "validate_use F (use s) (na_warn s) (s, l @ [CheckFrame, Resolve]) =
      ((s, l @ [CheckFrame, Resolve]), Inr (use s))"
    using a by (simp add: validate_use_cases)
  show "\<exists>l'. snd (fst (H2OMulticollinearityFilterer_fit env X (s, l))) =
                   (l @ [CheckFrame, Resolve]) @ [Correlation (use s) (na_rm s)] @ l'"
    using MCF_log[OF cf ff vu] by (simp add: fit_state_MCF)
  show "\<exists>l'. snd (fst (H2ONearZeroVarianceFilterer_fit env X (s, l))) =
                   (l @ [CheckFrame, Resolve]) @ [Variance (na_rm s) (use s)] @ l'"
    if "strategy s = ''variance''"
    using NZV_variance_log[OF cf ff vu that] by (simp add: fit_state_NZV)
qed

lemma cf0: "check_frame ref_env frame0 = Inr frame0"
  by (simp add: ref_env_def check_frame_spec_def)

lemma ff0: "frame_from_x_y ref_env frame0 (feature_names (sel0 t)) (target_feature (sel0 t))
           (exclude_features (sel0 t)) = Inr cand0"
  by (simp add: ref_env_def frame_from_x_y_spec_def sel0_def new_selector_def frame0_def
        cand0_def getitem_def columns_def)

text \<open>
  Instances of C6 on the example frame, whose candidate frame misses five cells: an
  unknown \<^verbatim>\<open>use\<close> is refused; \<^verbatim>\<open>use='everything'\<close> with \<^verbatim>\<open>na_warn\<close> is replaced by
  \<^verbatim>\<open>complete.obs\<close> after a warning; \<^verbatim>\<open>use='everything'\<close> without \<^verbatim>\<open>na_warn\<close> reaches
  the engine as it is.
\<close>

theorem use_policy_witness:
  "check_frame ref_env frame0 = Inr frame0 \<and>
   frame_from_x_y ref_env frame0 (feature_names (sel0 0.85)) (target_feature (sel0 0.85))
     (exclude_features (sel0 0.85)) = Inr cand0 \<and>
   use ((sel0 0.85)\<lparr>use := ''pairwise''\<rparr>) \<notin> set valid_use \<and>
   snd (H2OMulticollinearityFilterer_fit ref_env frame0
          ((sel0 0.85)\<lparr>use := ''pairwise''\<rparr>, [])) =
     Inl (ValueError ''expected one of valid use'') \<and>
   use ((sel0 0.85)\<lparr>use := ''everything''\<rparr>) \<in> set valid_use \<and>
   use ((sel0 0.85)\<lparr>use := ''everything''\<rparr>) \<noteq> ''complete.obs'' \<and>
   na_warn ((sel0 0.85)\<lparr>use := ''everything''\<rparr>) \<and> isna_sum cand0 > 0 \<and>
   strategy ((sel0 0.85)\<lparr>use := ''everything''\<rparr>) = ''variance'' \<and>
   (\<exists>l'. snd (fst (H2OMulticollinearityFilterer_fit ref_env frame0
                     ((sel0 0.85)\<lparr>use := ''everything''\<rparr>, []))) =
      [CheckFrame, Resolve, CountNA, Warn ''NA value(s) in frame; using complete.obs'',
       Correlation ''complete.obs'' False] @ l') \<and>
   (\<exists>l'. snd (fst (H2ONearZeroVarianceFilterer_fit ref_env frame0
                     ((sel0 0.85)\<lparr>use := ''everything''\<rparr>, []))) =
      [CheckFrame, Resolve, CountNA, Warn ''NA value(s) in frame; using complete.obs'',
       Variance False ''complete.obs''] @ l') \<and>
   use ((sel0 0.85)\<lparr>use := ''everything'', na_warn := False\<rparr>) \<in> set valid_use \<and>
   \<not> na_warn ((sel0 0.85)\<lparr>use := ''everything'', na_warn := False\<rparr>) \<and>
   (\<exists>l'. snd (fst (H2OMulticollinearityFilterer_fit ref_env frame0
                     ((sel0 0.85)\<lparr>use := ''everything'', na_warn := False\<rparr>, []))) =
      [CheckFrame, Resolve, Correlation ''everything'' False] @ l')"
proof -
  let ?b = "(sel0 0.85)\<lparr>use := ''pairwise''\<rparr>"
  let ?s = "(sel0 0.85)\<lparr>use := ''everything''\<rparr>"
  let ?q = "(sel0 0.85)\<lparr>use := ''everything'', na_warn := False\<rparr>"
  have ffb: "frame_from_x_y ref_env frame0 (feature_names ?b) (target_feature ?b)
              (exclude_features ?b) = Inr cand0"
    using ff0[of "0.85"] by (simp add: sel0_def)
  have ffs: "frame_from_x_y ref_env frame0 (feature_names ?s) (target_feature ?s)
              (exclude_features ?s) = Inr cand0"
    using ff0[of "0.85"] by (simp add: sel0_def)
  have ffq: "frame_from_x_y ref_env frame0 (feature_names ?q) (target_feature ?q)
              (exclude_features ?q) = Inr cand0"
    using ff0[of "0.85"] by (simp add: sel0_def)
  have hb: "use ?b \<notin> set valid_use" by (simp add: valid_use_def)
  have hs: "use ?s \<in> set valid_use \<and> use ?s \<noteq> ''complete.obs'' \<and> na_warn ?s \<and>
            isna_sum cand0 > 0"
    by (simp add: valid_use_def sel0_def new_selector_def isna_sum_def cand0_def na_count_def)
  have ss: "strategy ?s = ''variance''" "na_rm ?s = False"
    by (simp_all add: sel0_def new_selector_def)
  have hq: "use ?q \<in> set valid_use \<and> \<not> na_warn ?q" "na_rm ?q = False" "use ?q = ''everything''"
    by (simp_all add: valid_use_def sel0_def new_selector_def)
  have B: "snd (H2OMulticollinearityFilterer_fit ref_env frame0 (?b, [])) =
             Inl (ValueError ''expected one of valid use'')"
    using use_policy[OF cf0 ffb, of "[]" "[]"] hb by blast
  have S: "(\<exists>l'. snd (fst (H2OMulticollinearityFilterer_fit ref_env frame0 (?s, []))) =
      [CheckFrame, Resolve, CountNA, Warn ''NA value(s) in frame; using complete.obs'',
       Correlation ''complete.obs'' False] @ l') \<and>
     (\<exists>l'. snd (fst (H2ONearZeroVarianceFilterer_fit ref_env frame0 (?s, []))) =
      [CheckFrame, Resolve, CountNA, Warn ''NA value(s) in frame; using complete.obs'',
       Variance False ''complete.obs''] @ l')"
    using use_policy[OF cf0 ffs, of "[]" "[]"] hs ss by simp
  have Q: "\<exists>l'. snd (fst (H2OMulticollinearityFilterer_fit ref_env frame0 (?q, []))) =
      [CheckFrame, Resolve, Correlation ''everything'' False] @ l'"
    using use_policy[OF cf0 ffq, of "[]" "[]"] hq by simp
  show ?thesis using cf0 ff0[of "0.85"] hb B hs ss(1) S hq(1) Q by blast
qed

text \<open>
  C9. For both filterers \<^verbatim>\<open>fit\<close> leaves the state \<^verbatim>\<open>fit_transform\<close> leaves on the same
  frame: the same object, hence the same \<^verbatim>\<open>drop_\<close>, \<^verbatim>\<open>mean_abs_correlations_\<close>,
  \<^verbatim>\<open>correlations_\<close> and \<^verbatim>\<open>var_\<close>, and the same log, also when an exception ends the
  call. They raise alike, and differ in the value returned: \<^verbatim>\<open>fit\<close> returns the object,
  \<^verbatim>\<open>fit_transform\<close> the transformed frame.
\<close>

theorem fit_leaves_fit_transform_state:
  "fst (H2OMulticollinearityFilterer_fit env X st) =
     fst (H2OMulticollinearityFilterer_fit_transform env X st)
   \<and> snd (H2OMulticollinearityFilterer_fit env X st) =
       (case snd (H2OMulticollinearityFilterer_fit_transform env X st) of
          Inl e \<Rightarrow> Inl e
        | Inr F \<Rightarrow> Inr (fst (fst (H2OMulticollinearityFilterer_fit_transform env X st))))
   \<and> fst (H2ONearZeroVarianceFilterer_fit env X st) =
       fst (H2ONearZeroVarianceFilterer_fit_transform env X st)
   \<and> snd (H2ONearZeroVarianceFilterer_fit env X st) =
       (case snd (H2ONearZeroVarianceFilterer_fit_transform env X st) of
          Inl e \<Rightarrow> Inl e
        | Inr F \<Rightarrow> Inr (fst (fst (H2ONearZeroVarianceFilterer_fit_transform env X st))))"
  using fit_state_MCF[of env X st] fit_result_MCF[of env X st]
        fit_state_NZV[of env X st] fit_result_NZV[of env X st]
  by simp

subsection \<open>The sparse feature dropper\<close>

lemma sparse_fit_unfold:
  assumes cf: "check_frame env X = Inr X1"
    and ff: "frame_from_x_y env X1 (feature_names s) (target_feature s) (exclude_features s) = Inr F"
    and t0: "0 \<le> threshold s" and t1: "threshold s < 1"
  shows "H2OSparseFeatureDropper_fit env X (s, l) =
     ((s\<lparr>drop' := Some (map (PyStr \<circ> fst)
                         (filter (\<lambda>(n, v). num_gt v (threshold s)) (sparsity F))),
         sparsity' := Some (map snd (sparsity F))\<rparr>,
       l @ [CheckFrame, Resolve, Fractions]),
      Inr (s\<lparr>drop' := Some (map (PyStr \<circ> fst)
                         (filter (\<lambda>(n, v). num_gt v (threshold s)) (sparsity F))),
             sparsity' := Some (map snd (sparsity F))\<rparr>))"
  using assms by (simp add: H2OSparseFeatureDropper_fit_def prog_defs Let_def)

lemma sparsity_names:
  "map fst (filter (\<lambda>(n, v). num_gt v t) (sparsity F)) =
   map fst (filter (\<lambda>(n, cs). num_gt (fraction (na_count cs) (nrows F)) t) (cols F))"
  by (simp add: sparsity_def filter_map comp_def split_def)

lemma sparsity_values:
  "map snd (sparsity F) = map (\<lambda>(n, cs). fraction (na_count cs) (nrows F)) (cols F)"
  by (simp add: sparsity_def comp_def split_def)

lemma bits_bounds: "0 < n \<Longrightarrow> 2 ^ (bits n - 1) \<le> n \<and> n < 2 ^ bits n"
proof (induction n rule: bits.induct)
  case (1 n)
  show ?case
  proof (cases "n div 2 = 0")
    case True
    then have "n = 1" using "1.prems" by linarith
    then show ?thesis by (simp add: bits.simps)
  next
    case False
    then have ih: "2 ^ (bits (n div 2) - 1) \<le> n div 2 \<and> n div 2 < 2 ^ bits (n div 2)"
      using "1.IH" "1.prems" by simp
    have b: "bits n = Suc (bits (n div 2))" using "1.prems" by (subst bits.simps) simp
    have pos: "0 < bits (n div 2)" using False by (subst bits.simps) simp
    have "(2::nat) ^ (bits n - 1) = 2 * 2 ^ (bits (n div 2) - 1)"
      using b pos by (cases "bits (n div 2)") simp_all
    moreover have "2 * (n div 2) \<le> n" by simp
    ultimately have lo: "2 ^ (bits n - 1) \<le> n" using ih by linarith
    have "n < 2 * (n div 2) + 2" by linarith
    also have "\<dots> \<le> 2 * 2 ^ bits (n div 2)" using ih by linarith
    finally have hi: "n < 2 ^ bits n" using b by simp
    show ?thesis using lo hi by simp
  qed
qed

lemma bits_mono: "a \<le> b \<Longrightarrow> bits a \<le> bits b"
proof (cases "a = 0")
  case True
  then show ?thesis by (simp add: bits.simps)
next
  case False
  assume ab: "a \<le> b"
  then have a: "0 < a" and b: "0 < b" using False by simp_all
  show ?thesis
  proof (rule ccontr)
    assume "\<not> bits a \<le> bits b"
    then have "bits b \<le> bits a - 1" by simp
    then have "(2::nat) ^ bits b \<le> 2 ^ (bits a - 1)" by (rule power_increasing) simp
    then have "b < a" using bits_bounds[OF a] bits_bounds[OF b] by linarith
    then show False using ab by simp
  qed
qed

lemma scale_bounds:
  assumes k: "0 < k" and kn: "k \<le> n"
  shows "n * 2 ^ 52 \<le> k * 2 ^ scale k n \<and> k * 2 ^ scale k n < n * 2 ^ 53 \<and> 52 \<le> scale k n"
proof -
  have n: "0 < n" using k kn by simp
  define la where "la = bits k"
  define lb where "lb = bits n"
  have lab: "la \<le> lb" unfolding la_def lb_def using kn by (rule bits_mono)
  have la0: "0 < la" unfolding la_def using k by (subst bits.simps) simp
  define s0 where "s0 = 53 + lb - la"
  have s0: "s0 + la = 53 + lb" "53 \<le> s0" unfolding s0_def using lab by simp_all
  have kb: "2 ^ (la - 1) \<le> k" "k < 2 ^ la" using bits_bounds[OF k] la_def by simp_all
  have nb: "2 ^ (lb - 1) \<le> n" "n < 2 ^ lb" using bits_bounds[OF n] lb_def by simp_all
  have e1: "(2::nat) ^ (la - 1) * 2 ^ s0 = 2 ^ lb * 2 ^ 52"
  proof -
    have "la - 1 + s0 = lb + 52" using s0 la0 by simp
    then show ?thesis by (metis power_add)
  qed
  have e2: "(2::nat) ^ la * 2 ^ s0 = 2 ^ lb * 2 ^ 53"
  proof -
    have "la + s0 = lb + 53" using s0 by simp
    then show ?thesis by (metis power_add)
  qed
  have lo0: "n * 2 ^ 52 < k * 2 ^ s0"
  proof -
    have "n * 2 ^ 52 < 2 ^ lb * 2 ^ 52" using nb by simp
    also have "\<dots> = 2 ^ (la - 1) * 2 ^ s0" using e1 by simp
    also have "\<dots> \<le> k * 2 ^ s0" using kb by simp
    finally show ?thesis .
  qed
  have lb0: "0 < lb" using lab la0 by simp
  have hi0: "k * 2 ^ s0 < n * 2 ^ 54"
  proof -
    have "k * 2 ^ s0 < 2 ^ la * 2 ^ s0" using kb by simp
    also have "\<dots> = 2 ^ lb * 2 ^ 53" using e2 by simp
    also have "\<dots> = (2::nat) ^ (lb - 1) * 2 ^ 54"
    proof -
      have "lb + 53 = lb - 1 + 54" using lb0 by simp
      then show ?thesis by (metis power_add)
    qed
    also have "\<dots> \<le> n * 2 ^ 54" using nb by simp
    finally show ?thesis .
  qed
  have half: "(2::nat) ^ s0 = 2 * 2 ^ (s0 - 1)"
    using s0 by (cases s0) simp_all
  show ?thesis
  proof (cases "n * 2 ^ 53 \<le> k * 2 ^ s0")
    case True
    then have sc: "scale k n = s0 - 1"
      by (simp add: scale_def Let_def s0_def la_def lb_def)
    have "2 * (n * 2 ^ 52) \<le> 2 * (k * 2 ^ (s0 - 1))" using True half by simp
    moreover have "2 * (k * 2 ^ (s0 - 1)) < 2 * (n * 2 ^ 53)" using hi0 half by simp
    ultimately show ?thesis using sc s0 by simp
  next
    case False
    then have sc: "scale k n = s0"
      by (simp add: scale_def Let_def s0_def la_def lb_def)
    show ?thesis using sc lo0 False s0 by simp
  qed
qed

lemma round_even_near:
  assumes "0 < b"
  shows "\<bar>real (round_even a b) - real a / real b\<bar> \<le> 1 / 2"
proof -
  define q where "q = a div b"
  define r where "r = a mod b"
  have a: "a = q * b + r" unfolding q_def r_def by simp
  have rb: "r < b" unfolding r_def using assms by simp
  have ab: "real a / real b = real q + real r / real b"
    using assms a by (simp add: field_simps)
  have rq: "real r / real b < 1" using rb assms by simp
  consider "2 * r < b" | "b < 2 * r" | "2 * r = b" by linarith
  then show ?thesis
  proof cases
    case 1
    then have "round_even a b = q" by (simp add: round_even_def q_def r_def Let_def)
    moreover have "real r / real b \<le> 1 / 2"
      using 1 assms by (simp add: field_simps)
    ultimately show ?thesis using ab by simp
  next
    case 2
    then have "round_even a b = q + 1" by (simp add: round_even_def q_def r_def Let_def)
    moreover have "1 / 2 \<le> real r / real b"
      using 2 assms by (simp add: field_simps)
    ultimately show ?thesis using ab rq by simp
  next
    case 3
    then have h: "real r / real b = 1 / 2" using assms by (simp add: field_simps)
    have "round_even a b = q \<or> round_even a b = q + 1"
      by (simp add: round_even_def q_def r_def Let_def)
    then show ?thesis using ab h by auto
  qed
qed

lemma fraction_nearest:
  assumes k: "0 < k" and kn: "k \<le> n"
  shows "\<exists>m. fraction k n = Some (real m / 2 ^ scale k n) \<and>
             \<bar>real m - real (k * 2 ^ scale k n) / real n\<bar> \<le> 1 / 2 \<and>
             n * 2 ^ 52 \<le> k * 2 ^ scale k n \<and> k * 2 ^ scale k n < n * 2 ^ 53"
proof -
  have n: "0 < n" using k kn by simp
  have "fraction k n = Some (real (round_even (k * 2 ^ scale k n) n) / 2 ^ scale k n)"
    using k n by (simp add: fraction_def)
  moreover have "\<bar>real (round_even (k * 2 ^ scale k n) n) - real (k * 2 ^ scale k n) / real n\<bar>
                 \<le> 1 / 2"
    using n by (rule round_even_near)
  ultimately show ?thesis using scale_bounds[OF k kn] by blast
qed

lemma fraction_error:
  assumes n: "0 < n" and kn: "k \<le> n"
  shows "\<exists>v. fraction k n = Some v \<and> \<bar>v - real k / real n\<bar> \<le> 1 / 2 ^ 53"
proof (cases "k = 0")
  case True
  then show ?thesis using n by (simp add: fraction_def)
next
  case False
  then have k: "0 < k" by simp
  obtain m where fr: "fraction k n = Some (real m / 2 ^ scale k n)"
    and near: "\<bar>real m - real (k * 2 ^ scale k n) / real n\<bar> \<le> 1 / 2"
    using fraction_nearest[OF k kn] by blast
  let ?s = "scale k n"
  have s52: "52 \<le> ?s" using scale_bounds[OF k kn] by simp
  have "real m / 2 ^ ?s - real k / real n =
        (real m - real (k * 2 ^ ?s) / real n) / 2 ^ ?s"
    by (simp add: field_simps)
  then have "\<bar>real m / 2 ^ ?s - real k / real n\<bar> =
             \<bar>real m - real (k * 2 ^ ?s) / real n\<bar> / 2 ^ ?s"
    by (simp add: abs_divide)
  also have "\<dots> \<le> (1 / 2) / 2 ^ ?s"
    using near by (intro divide_right_mono) simp_all
  also have "\<dots> = 1 / 2 ^ (Suc ?s)" by simp
  also have "\<dots> \<le> 1 / 2 ^ 53"
  proof -
    have "(2::real) ^ 53 \<le> 2 ^ Suc ?s" using s52 by (intro power_increasing) simp_all
    then show ?thesis by (simp add: frac_le del: power_Suc)
  qed
  finally show ?thesis using fr by blast
qed

lemma well_shaped_count:
  "well_shaped F \<Longrightarrow> (n, cs) \<in> set (cols F) \<Longrightarrow> na_count cs \<le> nrows F"
proof -
  assume ws: "well_shaped F" and el: "(n, cs) \<in> set (cols F)"
  then have "length cs = nrows F" by (auto simp: well_shaped_def list_all_iff)
  moreover have "na_count cs \<le> length cs" by (simp add: na_count_def)
  ultimately show ?thesis by simp
qed

lemma fraction_third: "fraction 1 3 = Some third"
  by (simp add: fraction_def scale_def round_even_def bits.simps Let_def third_def)

text \<open>
  C5, as the code has it. For a threshold \<open>t\<close> with \<open>0 \<le> t < 1\<close> and a frame whose
  candidate frame \<open>F\<close> resolves, is well shaped and has fewer than \<open>2 ^ 53\<close> rows,
  \<^verbatim>\<open>H2OSparseFeatureDropper.fit\<close> returns normally; \<^verbatim>\<open>drop_\<close> is the list of the columns
  of \<open>F\<close>, in the order of \<open>F\<close>, whose fraction of missing cells as the engine
  computes it, the double nearest to missing count by row count, is strictly greater
  than \<open>t\<close>; a column whose computed fraction equals \<open>t\<close> is kept; \<^verbatim>\<open>sparsity_\<close>
  holds the computed fractions of all columns of \<open>F\<close> in the order of \<open>F\<close>. The
  computed fraction is NaN on a frame without rows, and otherwise within \<open>1 / 2 ^ 53\<close>
  of the exact one, so that a column is dropped when its exact fraction exceeds \<open>t\<close> by
  more than that and kept when it stays below \<open>t\<close> by more than that.
\<close>

theorem sparse_drop_computed:
  assumes cf: "check_frame env X = Inr X1"
    and ff: "frame_from_x_y env X1 (feature_names s) (target_feature s) (exclude_features s) = Inr F"
    and t0: "0 \<le> threshold s" and t1: "threshold s < 1"
    and ws: "well_shaped F" and nb: "nrows F < 2 ^ 53"
  shows "\<exists>s' d. H2OSparseFeatureDropper_fit env X (s, l) =
                  ((s', l @ [CheckFrame, Resolve, Fractions]), Inr s')
      \<and> drop' s' = Some (map PyStr d)
      \<and> d = map fst (filter (\<lambda>(n, cs). num_gt (fraction (na_count cs) (nrows F)) (threshold s))
                         (cols F))
      \<and> sparsity' s' = Some (map (\<lambda>(n, cs). fraction (na_count cs) (nrows F)) (cols F))
      \<and> (\<forall>n cs. (n, cs) \<in> set (cols F) \<longrightarrow>
            (nrows F = 0 \<longrightarrow> fraction (na_count cs) (nrows F) = None) \<and>
            (nrows F \<noteq> 0 \<longrightarrow>
               (\<exists>v. fraction (na_count cs) (nrows F) = Some v \<and>
                    \<bar>v - real (na_count cs) / real (nrows F)\<bar> \<le> 1 / 2 ^ 53)) \<and>
            (na_count cs \<noteq> 0 \<longrightarrow>
               (\<exists>m. fraction (na_count cs) (nrows F) =
                      Some (real m / 2 ^ scale (na_count cs) (nrows F)) \<and>
                    \<bar>real m - real (na_count cs * 2 ^ scale (na_count cs) (nrows F))
                               / real (nrows F)\<bar> \<le> 1 / 2 \<and>
                    nrows F * 2 ^ 52 \<le> na_count cs * 2 ^ scale (na_count cs) (nrows F) \<and>
                    na_count cs * 2 ^ scale (na_count cs) (nrows F) < nrows F * 2 ^ 53)))
      \<and> (distinct (columns F) \<longrightarrow>
           (\<forall>n cs. (n, cs) \<in> set (cols F) \<longrightarrow>
              (n \<in> set d \<longleftrightarrow>
                 (\<exists>v. fraction (na_count cs) (nrows F) = Some v \<and> threshold s < v)) \<and>
              (fraction (na_count cs) (nrows F) = Some (threshold s) \<longrightarrow> n \<notin> set d) \<and>
              (nrows F \<noteq> 0 \<and>
               threshold s + 1 / 2 ^ 53 < real (na_count cs) / real (nrows F) \<longrightarrow> n \<in> set d) \<and>
              (nrows F \<noteq> 0 \<and>
               real (na_count cs) / real (nrows F) < threshold s - 1 / 2 ^ 53 \<longrightarrow> n \<notin> set d)))"
proof -
  let ?fr = "\<lambda>cs. fraction (na_count cs) (nrows F)"
  let ?P = "\<lambda>(n, cs). num_gt (?fr cs) (threshold s)"
  let ?d = "map fst (filter ?P (cols F))"
  let ?s' = "s\<lparr>drop' := Some (map (PyStr \<circ> fst)
                         (filter (\<lambda>(n, v). num_gt v (threshold s)) (sparsity F))),
         sparsity' := Some (map snd (sparsity F))\<rparr>"
  have run: "H2OSparseFeatureDropper_fit env X (s, l) =
               ((?s', l @ [CheckFrame, Resolve, Fractions]), Inr ?s')"
    by (rule sparse_fit_unfold[OF cf ff t0 t1])
  have dr: "drop' ?s' = Some (map PyStr ?d)"
    using sparsity_names[of "threshold s" F] by (simp add: map_map[symmetric] del: map_map)
  have sp: "sparsity' ?s' = Some (map (\<lambda>(n, cs). ?fr cs) (cols F))"
    by (simp add: sparsity_values)
  have num: "(nrows F = 0 \<longrightarrow> ?fr cs = None) \<and>
            (nrows F \<noteq> 0 \<longrightarrow>
               (\<exists>v. ?fr cs = Some v \<and> \<bar>v - real (na_count cs) / real (nrows F)\<bar> \<le> 1 / 2 ^ 53)) \<and>
            (na_count cs \<noteq> 0 \<longrightarrow>
               (\<exists>m. ?fr cs = Some (real m / 2 ^ scale (na_count cs) (nrows F)) \<and>
                    \<bar>real m - real (na_count cs * 2 ^ scale (na_count cs) (nrows F))
                               / real (nrows F)\<bar> \<le> 1 / 2 \<and>
                    nrows F * 2 ^ 52 \<le> na_count cs * 2 ^ scale (na_count cs) (nrows F) \<and>
                    na_count cs * 2 ^ scale (na_count cs) (nrows F) < nrows F * 2 ^ 53))"
    if el: "(n, cs) \<in> set (cols F)" for n cs
  proof -
    have le: "na_count cs \<le> nrows F" using ws el by (rule well_shaped_count)
    have a: "nrows F = 0 \<longrightarrow> ?fr cs = None" by (simp add: fraction_def)
    have b: "nrows F \<noteq> 0 \<longrightarrow>
               (\<exists>v. ?fr cs = Some v \<and> \<bar>v - real (na_count cs) / real (nrows F)\<bar> \<le> 1 / 2 ^ 53)"
      using fraction_error[OF _ le] by blast
    have c: "na_count cs \<noteq> 0 \<longrightarrow>
               (\<exists>m. ?fr cs = Some (real m / 2 ^ scale (na_count cs) (nrows F)) \<and>
                    \<bar>real m - real (na_count cs * 2 ^ scale (na_count cs) (nrows F))
                               / real (nrows F)\<bar> \<le> 1 / 2 \<and>
                    nrows F * 2 ^ 52 \<le> na_count cs * 2 ^ scale (na_count cs) (nrows F) \<and>
                    na_count cs * 2 ^ scale (na_count cs) (nrows F) < nrows F * 2 ^ 53)"
      using fraction_nearest[OF _ le] by blast
    show ?thesis using a b c by blast
  qed
  have mem: "(n \<in> set ?d \<longleftrightarrow> (\<exists>v. ?fr cs = Some v \<and> threshold s < v)) \<and>
             (?fr cs = Some (threshold s) \<longrightarrow> n \<notin> set ?d) \<and>
             (nrows F \<noteq> 0 \<and>
               threshold s + 1 / 2 ^ 53 < real (na_count cs) / real (nrows F) \<longrightarrow> n \<in> set ?d) \<and>
             (nrows F \<noteq> 0 \<and>
               real (na_count cs) / real (nrows F) < threshold s - 1 / 2 ^ 53 \<longrightarrow> n \<notin> set ?d)"
    if dist: "distinct (columns F)" and el: "(n, cs) \<in> set (cols F)" for n cs
  proof -
    have uniq: "cs' = cs" if "(n, cs') \<in> set (cols F)" for cs'
      using dist el that unfolding columns_def by (meson eq_key_imp_eq_value)
    have "n \<in> set ?d \<longleftrightarrow> (\<exists>cs'. (n, cs') \<in> set (cols F) \<and> ?P (n, cs'))"
      by force
    also have "\<dots> \<longleftrightarrow> ?P (n, cs)" using uniq el by blast
    also have "\<dots> \<longleftrightarrow> (\<exists>v. ?fr cs = Some v \<and> threshold s < v)"
      by (auto simp: num_gt_def split: option.splits)
    finally have m1: "n \<in> set ?d \<longleftrightarrow> (\<exists>v. ?fr cs = Some v \<and> threshold s < v)" .
    have m2: "?fr cs = Some (threshold s) \<longrightarrow> n \<notin> set ?d" using m1 by auto
    have bound: "nrows F \<noteq> 0 \<longrightarrow>
               (\<exists>v. ?fr cs = Some v \<and> \<bar>v - real (na_count cs) / real (nrows F)\<bar> \<le> 1 / 2 ^ 53)"
      using num[OF el] by blast
    have m3: "nrows F \<noteq> 0 \<and>
               threshold s + 1 / 2 ^ 53 < real (na_count cs) / real (nrows F) \<longrightarrow> n \<in> set ?d"
    proof
      assume h: "nrows F \<noteq> 0 \<and> threshold s + 1 / 2 ^ 53 < real (na_count cs) / real (nrows F)"
      then obtain v where v: "?fr cs = Some v"
        and e: "\<bar>v - real (na_count cs) / real (nrows F)\<bar> \<le> 1 / 2 ^ 53"
        using bound by blast
      have "threshold s < v" using h e by linarith
      then show "n \<in> set ?d" using m1 v by blast
    qed
    have m4: "nrows F \<noteq> 0 \<and>
               real (na_count cs) / real (nrows F) < threshold s - 1 / 2 ^ 53 \<longrightarrow> n \<notin> set ?d"
    proof
      assume h: "nrows F \<noteq> 0 \<and> real (na_count cs) / real (nrows F) < threshold s - 1 / 2 ^ 53"
      then obtain v where v: "?fr cs = Some v"
        and e: "\<bar>v - real (na_count cs) / real (nrows F)\<bar> \<le> 1 / 2 ^ 53"
        using bound by blast
      have "\<not> threshold s < v" using h e by linarith
      then show "n \<notin> set ?d" using m1 v by auto
    qed
    show ?thesis using m1 m2 m3 m4 by blast
  qed
  show ?thesis
    apply (rule exI[of _ ?s'])
    apply (rule exI[of _ ?d])
    using run dr sp num mem by blast
qed

lemma fractions0:
  "fraction 3 4 = Some (3 / 4)" "fraction 2 4 = Some (1 / 2)" "fraction 0 4 = Some 0"
  by (simp_all add: fraction_def scale_def round_even_def bits.simps Let_def)

lemma counts0:
  "na_count [Some 1, None, None, None] = 3" "na_count [Some 1, Some 2, None, None] = 2"
  "na_count [Some 3, Some 3, Some 3, Some 3] = 0" "na_count [Some 1, None, Some 2] = 1"
  by (simp_all add: na_count_def)

text \<open>
  An instance of C5 at threshold one half: \<open>a\<close> misses three cells of four and is
  dropped, \<open>b\<close> misses exactly half, a fraction the engine computes exactly, and is
  kept.
\<close>

theorem sparse_drop_computed_witness:
  "check_frame ref_env frame0 = Inr frame0 \<and>
   frame_from_x_y ref_env frame0 (feature_names (sel0 0.5)) (target_feature (sel0 0.5))
     (exclude_features (sel0 0.5)) = Inr cand0 \<and>
   0 \<le> threshold (sel0 0.5) \<and> threshold (sel0 0.5) < 1 \<and>
   well_shaped cand0 \<and> nrows cand0 < 2 ^ 53 \<and>
   distinct (columns cand0) \<and>
   (''b'', [Some 1, Some 2, None, None]) \<in> set (cols cand0) \<and>
   fraction (na_count [Some 1, Some 2, None, None]) (nrows cand0) = Some (threshold (sel0 0.5)) \<and>
   (\<exists>s'. H2OSparseFeatureDropper_fit ref_env frame0 (sel0 0.5, []) =
            ((s', [CheckFrame, Resolve, Fractions]), Inr s') \<and>
         drop' s' = Some [PyStr ''a''] \<and>
         sparsity' s' = Some [Some (3 / 4), Some (1 / 2), Some 0])"
proof -
  have t0: "0 \<le> threshold (sel0 0.5)" and t1: "threshold (sel0 0.5) < 1"
    by (simp_all add: sel0_def new_selector_def)
  have ws: "well_shaped cand0" and nb: "nrows cand0 < 2 ^ 53"
    by (simp_all add: well_shaped_def cand0_def)
  have dc: "distinct (columns cand0)" by (simp add: columns_def cand0_def)
  have mb: "(''b'', [Some 1, Some 2, None, None]) \<in> set (cols cand0)"
    by (simp add: cand0_def)
  have eq: "fraction (na_count [Some 1, Some 2, None, None]) (nrows cand0) =
            Some (threshold (sel0 0.5))"
    by (simp add: counts0 cand0_def sel0_def new_selector_def fractions0)
  from sparse_drop_computed[OF cf0 ff0 t0 t1 ws nb, of "[]"]
  obtain s' d where
    run: "H2OSparseFeatureDropper_fit ref_env frame0 (sel0 0.5, []) =
            ((s', [CheckFrame, Resolve, Fractions]), Inr s')"
    and dr: "drop' s' = Some (map PyStr d)"
    and d: "d = map fst (filter (\<lambda>(n, cs). num_gt (fraction (na_count cs) (nrows cand0))
                                   (threshold (sel0 0.5))) (cols cand0))"
    and sp: "sparsity' s' = Some (map (\<lambda>(n, cs). fraction (na_count cs) (nrows cand0)) (cols cand0))"
    by auto
  have "d = [''a'']"
    unfolding d by (simp add: cand0_def sel0_def new_selector_def counts0 fractions0 num_gt_def)
  moreover have "map (\<lambda>(n, cs). fraction (na_count cs) (nrows cand0)) (cols cand0) =
                 [Some (3 / 4), Some (1 / 2), Some 0]"
    by (simp add: cand0_def counts0 fractions0)
  ultimately show ?thesis using run dr sp cf0 ff0 t0 t1 ws nb dc mb eq by auto
qed

text \<open>
  C5 as stated fails, its fraction being the exact quotient of missing count by row
  count. The threshold \<open>third\<close> is the double \<^verbatim>\<open>0.3333333333333333\<close>, which is less than
  one third. In a frame of three rows a column with one missing cell has the exact
  fraction one third, strictly greater than the threshold, but the engine's quotient is
  the threshold itself, and \<^verbatim>\<open>fit\<close> keeps the column.
\<close>

theorem sparse_exact_fraction_counterexample:
  "0 \<le> third \<and> third < 1 \<and>
   third < real (na_count [Some 1, None, Some 2]) / real (nrows frame3) \<and>
   H2OSparseFeatureDropper_fit ref_env frame3 (new_selector PyNone third, []) =
     (((new_selector PyNone third)\<lparr>drop' := Some [], sparsity' := Some [Some third]\<rparr>,
       [CheckFrame, Resolve, Fractions]),
      Inr ((new_selector PyNone third)\<lparr>drop' := Some [], sparsity' := Some [Some third]\<rparr>))"
proof -
  let ?s = "new_selector PyNone third"
  have t: "0 \<le> threshold ?s" "threshold ?s < 1"
    by (simp_all add: new_selector_def third_def)
  have gt: "third < real (na_count [Some 1, None, Some 2]) / real (nrows frame3)"
    by (simp add: counts0 frame3_def third_def)
  have cf: "check_frame ref_env frame3 = Inr frame3"
    by (simp add: ref_env_def check_frame_spec_def)
  have ff: "frame_from_x_y ref_env frame3 (feature_names ?s) (target_feature ?s)
              (exclude_features ?s) = Inr frame3"
    by (simp add: ref_env_def frame_from_x_y_spec_def new_selector_def frame3_def getitem_def
          columns_def)
  have sp: "sparsity frame3 = [(''p'', Some third)]"
    using fraction_third by (simp add: sparsity_def frame3_def counts0)
  have "H2OSparseFeatureDropper_fit ref_env frame3 (?s, []) =
     ((?s\<lparr>drop' := Some [], sparsity' := Some [Some third]\<rparr>,
       [CheckFrame, Resolve, Fractions]),
      Inr (?s\<lparr>drop' := Some [], sparsity' := Some [Some third]\<rparr>))"
    using sparse_fit_unfold[OF cf ff t, of "[]"]
    by (simp add: sp num_gt_def new_selector_def)
  then show ?thesis using t gt by (simp add: new_selector_def)
qed

subsection \<open>The near-zero-variance filterer\<close>

lemma transform_self: "fst (fst (transform env X (s, l))) = s"
  by (simp add: transform_def prog_defs split: option.splits sum.splits)

lemma pick_total: "set ns \<subseteq> set (map fst cs) \<Longrightarrow> \<exists>r. pick cs ns = Inr r"
proof (induction ns)
  case Nil
  then show ?case by simp
next
  case (Cons n ns)
  then obtain r where r: "pick cs ns = Inr r" by auto
  from Cons.prems have "n \<in> fst ` set cs" by simp
  then obtain c where "map_of cs n = Some c"
    by (metis domD dom_map_of_conv_image_fst)
  then show ?case using r by simp
qed

lemma transform_returns:
  assumes "check_frame env = check_frame_spec"
    and "retain_features env = retain_features_spec"
    and "drop' s = Some d"
  shows "\<exists>F'. snd (transform env X (s, l)) = Inr F'"
proof -
  have "set (retain_features_spec X d) \<subseteq> set (map fst (cols X))"
    by (auto simp: retain_features_spec_def columns_def)
  then obtain r where "pick (cols X) (retain_features_spec X d) = Inr r"
    using pick_total by blast
  then show ?thesis using assms
    by (simp add: transform_def prog_defs check_frame_spec_def getitem_def)
qed

lemma validate_use_valid:
  "u \<in> set valid_use \<Longrightarrow> \<exists>l1 u1. validate_use X u nw (s, l) = ((s, l1), Inr u1)"
  by (simp add: validate_use_cases)

lemma NZV_ratio_rejected:
  assumes "strategy s = ''ratio''" and "threshold s \<le> 1"
  shows "\<exists>e. snd (H2ONearZeroVarianceFilterer_fit_transform env X (s, l)) = Inl e"
proof (cases "check_frame env X")
  case (Inl e)
  then show ?thesis
    by (simp add: H2ONearZeroVarianceFilterer_fit_transform_def prog_defs)
next
  case X1: (Inr X1)
  show ?thesis
  proof (cases "frame_from_x_y env X1 (feature_names s) (target_feature s) (exclude_features s)")
    case (Inl e)
    then show ?thesis using X1
      by (simp add: H2ONearZeroVarianceFilterer_fit_transform_def prog_defs)
  next
    case (Inr F)
    then show ?thesis using X1 assms
      by (simp add: H2ONearZeroVarianceFilterer_fit_transform_def prog_defs
            validate_use_cases Let_def)
  qed
qed

text \<open>
  C7. With strategy \<^verbatim>\<open>ratio\<close> a threshold of at most one is never accepted: fitting an
  \<^verbatim>\<open>H2ONearZeroVarianceFilterer\<close> ends in an exception, and where the candidate frame
  resolves and \<^verbatim>\<open>use\<close> is valid it is the \<^verbatim>\<open>ValueError\<close> about the threshold, raised
  with no attribute fitted. With strategy \<^verbatim>\<open>variance\<close> no condition is put on the
  threshold: where the candidate frame \<open>F\<close> resolves, \<^verbatim>\<open>use\<close> is valid and the engine
  returns one variance per column of \<open>F\<close>, \<^verbatim>\<open>drop_\<close> is the list of the columns of
  \<open>F\<close> whose variance is strictly less than the threshold and \<^verbatim>\<open>var_\<close> maps exactly
  these columns, each to its variance; with the helpers of the reference environment
  \<^verbatim>\<open>fit\<close> then returns normally.
\<close>

theorem nzv_threshold_rule:
  "(strategy s = ''ratio'' \<and> threshold s \<le> 1 \<longrightarrow>
      (\<exists>e. snd (H2ONearZeroVarianceFilterer_fit env X (s, l)) = Inl e) \<and>
      (check_frame env X = Inr X1 \<and>
       frame_from_x_y env X1 (feature_names s) (target_feature s) (exclude_features s) = Inr F \<and>
       use s \<in> set valid_use \<longrightarrow>
         snd (H2ONearZeroVarianceFilterer_fit env X (s, l)) =
           Inl (ValueError ''when strategy==ratio, threshold must be greater than 1.0'') \<and>
         fst (fst (H2ONearZeroVarianceFilterer_fit env X (s, l))) = s))
   \<and> (strategy s = ''variance'' \<and> check_frame env X = Inr X1 \<and>
       frame_from_x_y env X1 (feature_names s) (target_feature s) (exclude_features s) = Inr F \<and>
       validate_use F (use s) (na_warn s) (s, l @ [CheckFrame, Resolve]) = ((s, l1), Inr u1) \<and>
       length (frame_var_diag env F (na_rm s) u1) = length (cols F) \<longrightarrow>
         (\<exists>m. drop' (fst (fst (H2ONearZeroVarianceFilterer_fit env X (s, l)))) =
                Some (map PyStr (map fst (filter (\<lambda>(n, v). num_lt v (threshold s))
                        (zip (columns F) (frame_var_diag env F (na_rm s) u1))))) \<and>
              var' (fst (fst (H2ONearZeroVarianceFilterer_fit env X (s, l)))) = Some m \<and>
              (distinct (columns F) \<longrightarrow>
                 (\<forall>n v. m n = Some v \<longleftrightarrow>
                    (n, v) \<in> set (zip (columns F) (frame_var_diag env F (na_rm s) u1)) \<and>
                    num_lt v (threshold s)))) \<and>
         (check_frame env = check_frame_spec \<and> retain_features env = retain_features_spec \<longrightarrow>
            (\<exists>s'. snd (H2ONearZeroVarianceFilterer_fit env X (s, l)) = Inr s')))"
proof (intro conjI impI)
  assume a: "strategy s = ''ratio'' \<and> threshold s \<le> 1"
  then obtain e where "snd (H2ONearZeroVarianceFilterer_fit_transform env X (s, l)) = Inl e"
    using NZV_ratio_rejected by blast
  then show "\<exists>e. snd (H2ONearZeroVarianceFilterer_fit env X (s, l)) = Inl e"
    by (simp add: fit_result_NZV)
  assume b: "check_frame env X = Inr X1 \<and>
       frame_from_x_y env X1 (feature_names s) (target_feature s) (exclude_features s) = Inr F \<and>
       use s \<in> set valid_use"
  then obtain l1 u1 where
    vu: "validate_use F (use s) (na_warn s) (s, l @ [CheckFrame, Resolve]) = ((s, l1), Inr u1)"
    using validate_use_valid[of "use s" F "na_warn s" s "l @ [CheckFrame, Resolve]"] by auto
  have run: "H2ONearZeroVarianceFilterer_fit_transform env X (s, l) =
      ((s, l1), Inl (ValueError ''when strategy==ratio, threshold must be greater than 1.0''))"
    using NZV_errors(3)[OF _ _ vu] a b by blast
  show "snd (H2ONearZeroVarianceFilterer_fit env X (s, l)) =
           Inl (ValueError ''when strategy==ratio, threshold must be greater than 1.0'')"
    using run by (simp add: fit_result_NZV)
  show "fst (fst (H2ONearZeroVarianceFilterer_fit env X (s, l))) = s"
    using run by (simp add: fit_state_NZV)
next
  assume a: "strategy s = ''variance'' \<and> check_frame env X = Inr X1 \<and>
       frame_from_x_y env X1 (feature_names s) (target_feature s) (exclude_features s) = Inr F \<and>
       validate_use F (use s) (na_warn s) (s, l @ [CheckFrame, Resolve]) = ((s, l1), Inr u1) \<and>
       length (frame_var_diag env F (na_rm s) u1) = length (cols F)"
  let ?diag = "frame_var_diag env F (na_rm s) u1"
  let ?Z = "filter (\<lambda>(n, v). num_lt v (threshold s)) (zip (columns F) ?diag)"
  let ?s' = "s\<lparr>drop' := Some (map PyStr (map fst ?Z)), var' := Some (dict_of ?Z)\<rparr>"
  have run: "H2ONearZeroVarianceFilterer_fit_transform env X (s, l) =
      transform env X1 (?s', l1 @ [Variance (na_rm s) u1])"
    using NZV_variance[of env X X1 s F l l1 u1] a by (simp add: Let_def)
  have st: "fst (fst (H2ONearZeroVarianceFilterer_fit env X (s, l))) = ?s'"
    by (simp add: fit_state_NZV run transform_self)
  have dm: "dict_of ?Z n = Some v \<longleftrightarrow> (n, v) \<in> set (zip (columns F) ?diag) \<and> num_lt v (threshold s)"
    if dist: "distinct (columns F)" for n v
  proof -
    have "distinct (map fst (zip (columns F) ?diag))"
      using dist a by (simp add: columns_def)
    then have "distinct (map fst ?Z)" by (rule distinct_map_filter)
    then show ?thesis by (auto simp: dict_of_distinct)
  qed
  show "\<exists>m. drop' (fst (fst (H2ONearZeroVarianceFilterer_fit env X (s, l)))) =
                Some (map PyStr (map fst ?Z)) \<and>
              var' (fst (fst (H2ONearZeroVarianceFilterer_fit env X (s, l)))) = Some m \<and>
              (distinct (columns F) \<longrightarrow>
                 (\<forall>n v. m n = Some v \<longleftrightarrow>
                    (n, v) \<in> set (zip (columns F) ?diag) \<and> num_lt v (threshold s)))"
    using st dm by (intro exI[of _ "dict_of ?Z"]) simp
  assume h: "check_frame env = check_frame_spec \<and> retain_features env = retain_features_spec"
  have "drop' ?s' = Some (map PyStr (map fst ?Z))" by simp
  then obtain F' where "snd (transform env X1 (?s', l1 @ [Variance (na_rm s) u1])) = Inr F'"
    using transform_returns[of env ?s'] h by blast
  then show "\<exists>s'. snd (H2ONearZeroVarianceFilterer_fit env X (s, l)) = Inr s'"
    by (simp add: fit_result_NZV run)
qed

lemma diag0:
  "frame_var_diag ref_env cand0 r u = [None, Some (1 / 2), Some 0]"
  by (simp add: ref_env_def cand0_def sample_var_def present_def Let_def)

text \<open>
  An instance of C7 on the example frame: with strategy \<^verbatim>\<open>ratio\<close> the threshold one is
  refused; with strategy \<^verbatim>\<open>variance\<close> and threshold one tenth the constant column
  \<open>c\<close> is dropped, \<open>b\<close> of variance one half is kept, and so is \<open>a\<close>, whose variance
  is NaN.
\<close>

theorem nzv_threshold_rule_witness:
  "strategy ((sel0 1)\<lparr>strategy := ''ratio''\<rparr>) = ''ratio'' \<and>
   threshold ((sel0 1)\<lparr>strategy := ''ratio''\<rparr>) \<le> 1 \<and>
   snd (H2ONearZeroVarianceFilterer_fit ref_env frame0 ((sel0 1)\<lparr>strategy := ''ratio''\<rparr>, [])) =
     Inl (ValueError ''when strategy==ratio, threshold must be greater than 1.0'') \<and>
   strategy (sel0 0.1) = ''variance'' \<and>
   check_frame ref_env frame0 = Inr frame0 \<and>
   frame_from_x_y ref_env frame0 (feature_names (sel0 0.1)) (target_feature (sel0 0.1))
     (exclude_features (sel0 0.1)) = Inr cand0 \<and>
   validate_use cand0 (use (sel0 0.1)) (na_warn (sel0 0.1)) (sel0 0.1, [] @ [CheckFrame, Resolve]) =
     ((sel0 0.1, [CheckFrame, Resolve]), Inr ''complete.obs'') \<and>
   length (frame_var_diag ref_env cand0 (na_rm (sel0 0.1)) ''complete.obs'') = length (cols cand0) \<and>
   drop' (fst (fst (H2ONearZeroVarianceFilterer_fit ref_env frame0 (sel0 0.1, [])))) =
     Some [PyStr ''c''] \<and>
   (\<exists>s'. snd (H2ONearZeroVarianceFilterer_fit ref_env frame0 (sel0 0.1, [])) = Inr s')"
proof -
  let ?r = "(sel0 1)\<lparr>strategy := ''ratio''\<rparr>"
  let ?v = "sel0 0.1"
  have r1: "strategy ?r = ''ratio'' \<and> threshold ?r \<le> 1"
    by (simp add: sel0_def new_selector_def)
  have r2: "frame_from_x_y ref_env frame0 (feature_names ?r) (target_feature ?r)
              (exclude_features ?r) = Inr cand0"
    using ff0[of 1] by (simp add: sel0_def)
  have r3: "use ?r \<in> set valid_use"
    by (simp add: sel0_def new_selector_def valid_use_def)
  have v1: "strategy ?v = ''variance''" by (simp add: sel0_def new_selector_def)
  have v2: "validate_use cand0 (use ?v) (na_warn ?v) (?v, [] @ [CheckFrame, Resolve]) =
              ((?v, [CheckFrame, Resolve]), Inr ''complete.obs'')"
    by (simp add: validate_use_cases sel0_def new_selector_def valid_use_def)
  have v3: "length (frame_var_diag ref_env cand0 (na_rm ?v) ''complete.obs'') = length (cols cand0)"
    by (simp add: diag0) (simp add: cand0_def)
  have v4: "check_frame ref_env = check_frame_spec \<and> retain_features ref_env = retain_features_spec"
    by (simp add: ref_env_def)
  have z: "map fst (filter (\<lambda>(n, v). num_lt v (threshold ?v))
              (zip (columns cand0) (frame_var_diag ref_env cand0 (na_rm ?v) ''complete.obs''))) =
           [''c'']"
    by (simp add: diag0) (simp add: cand0_def columns_def num_lt_def sel0_def new_selector_def)
  have A: "snd (H2ONearZeroVarianceFilterer_fit ref_env frame0 (?r, [])) =
             Inl (ValueError ''when strategy==ratio, threshold must be greater than 1.0'')"
    using nzv_threshold_rule[of ?r ref_env frame0 "[]" frame0 cand0] r1 r2 r3 cf0 by blast
  have B: "drop' (fst (fst (H2ONearZeroVarianceFilterer_fit ref_env frame0 (?v, [])))) =
             Some [PyStr ''c''] \<and>
           (\<exists>s'. snd (H2ONearZeroVarianceFilterer_fit ref_env frame0 (?v, [])) = Inr s')"
    using nzv_threshold_rule[of ?v ref_env frame0 "[]" frame0 cand0 "[CheckFrame, Resolve]"
            "''complete.obs''"] v1 v2 v3 v4 cf0 ff0[of "0.1"] z
    by auto
  show ?thesis using A B r1 v1 v2 v3 cf0 ff0[of "0.1"] by blast
qed

subsection \<open>When a malformed configuration is detected\<close>








subsection \<open>The feature dropper\<close>

text \<open>
  C4, as the code has it. \<^verbatim>\<open>H2OFeatureDropper.fit\<close> raises exactly when
  \<^verbatim>\<open>feature_names\<close> is neither \<^verbatim>\<open>None\<close> nor accepted by \<^verbatim>\<open>is_iterable\<close>, or when
  drawing the elements of an accepted object fails. For \<^verbatim>\<open>None\<close> it sets \<^verbatim>\<open>drop_\<close> to
  the empty list; for an accepted iterable it sets \<^verbatim>\<open>drop_\<close> to the elements in order,
  whatever they are: no element is checked to be a string. The frame is not inspected:
  the outcome is the same on every frame and nothing is added to the log.
\<close>

theorem feature_dropper_fit_rule:
  "(feature_names s \<noteq> PyNone \<and> \<not> is_iterable env (feature_names s) \<longrightarrow>
      H2OFeatureDropper_fit env X (s, l) =
        ((s, l), Inl (ValueError ''expected iterable for feature_names'')))
   \<and> (feature_names s = PyNone \<and> is_iterable env (PyList []) \<longrightarrow>
      H2OFeatureDropper_fit env X (s, l) =
        ((s\<lparr>drop' := Some []\<rparr>, l), Inr (s\<lparr>drop' := Some []\<rparr>)))
   \<and> (feature_names s \<noteq> PyNone \<and> is_iterable env (feature_names s) \<and>
       py_iter (feature_names s) = Inr xs \<longrightarrow>
      H2OFeatureDropper_fit env X (s, l) =
        ((s\<lparr>drop' := Some xs\<rparr>, l), Inr (s\<lparr>drop' := Some xs\<rparr>)))
   \<and> (feature_names s \<noteq> PyNone \<and> is_iterable env (feature_names s) \<and>
       py_iter (feature_names s) = Inl e \<longrightarrow>
      H2OFeatureDropper_fit env X (s, l) = ((s, l), Inl e))
   \<and> H2OFeatureDropper_fit env X (s, l) = H2OFeatureDropper_fit env X' (s, l)
   \<and> snd (fst (H2OFeatureDropper_fit env X (s, l))) = l"
  by (auto simp: H2OFeatureDropper_fit_def prog_defs Let_def split: sum.splits)

text \<open>
  Instances: a list of two names becomes \<^verbatim>\<open>drop_\<close> as it is, an integer is refused,
  and \<^verbatim>\<open>None\<close> gives the empty \<^verbatim>\<open>drop_\<close>.
\<close>

theorem feature_dropper_fit_rule_witness:
  "feature_names (new_selector (PyList [PyStr ''a'', PyStr ''b'']) 0) \<noteq> PyNone \<and>
   is_iterable ref_env (feature_names (new_selector (PyList [PyStr ''a'', PyStr ''b'']) 0)) \<and>
   py_iter (feature_names (new_selector (PyList [PyStr ''a'', PyStr ''b'']) 0)) =
     Inr [PyStr ''a'', PyStr ''b''] \<and>
   H2OFeatureDropper_fit ref_env frame0 (new_selector (PyList [PyStr ''a'', PyStr ''b'']) 0, []) =
     (((new_selector (PyList [PyStr ''a'', PyStr ''b'']) 0)\<lparr>drop' := Some [PyStr ''a'', PyStr ''b'']\<rparr>, []),
      Inr ((new_selector (PyList [PyStr ''a'', PyStr ''b'']) 0)\<lparr>drop' := Some [PyStr ''a'', PyStr ''b'']\<rparr>)) \<and>
   feature_names (new_selector (PyInt 3) 0) \<noteq> PyNone \<and>
   \<not> is_iterable ref_env (feature_names (new_selector (PyInt 3) 0)) \<and>
   H2OFeatureDropper_fit ref_env frame0 (new_selector (PyInt 3) 0, []) =
     ((new_selector (PyInt 3) 0, []), Inl (ValueError ''expected iterable for feature_names'')) \<and>
   feature_names (new_selector PyNone 0) = PyNone \<and> is_iterable ref_env (PyList []) \<and>
   H2OFeatureDropper_fit ref_env frame0 (new_selector PyNone 0, []) =
     (((new_selector PyNone 0)\<lparr>drop' := Some []\<rparr>, []),
      Inr ((new_selector PyNone 0)\<lparr>drop' := Some []\<rparr>))"
proof -
  let ?s = "new_selector (PyList [PyStr ''a'', PyStr ''b'']) 0"
  let ?i = "new_selector (PyInt 3) 0"
  let ?n = "new_selector PyNone 0"
  have h: "feature_names ?s \<noteq> PyNone \<and> is_iterable ref_env (feature_names ?s) \<and>
           py_iter (feature_names ?s) = Inr [PyStr ''a'', PyStr ''b'']"
    by (simp add: new_selector_def ref_env_def)
  have hi: "feature_names ?i \<noteq> PyNone \<and> \<not> is_iterable ref_env (feature_names ?i)"
    by (simp add: new_selector_def ref_env_def)
  have hn: "feature_names ?n = PyNone \<and> is_iterable ref_env (PyList [])"
    by (simp add: new_selector_def ref_env_def)
  from feature_dropper_fit_rule[of ?s ref_env frame0 "[]" "[PyStr ''a'', PyStr ''b'']"]
       feature_dropper_fit_rule[of ?i ref_env frame0 "[]"]
       feature_dropper_fit_rule[of ?n ref_env frame0 "[]"] h hi hn
  show ?thesis by blast
qed

text \<open>
  C4 as stated fails: a list of integers is not an iterable of strings, yet \<^verbatim>\<open>fit\<close>
  does not raise and takes the integers as \<^verbatim>\<open>drop_\<close>.
\<close>

theorem feature_dropper_strings_counterexample:
  "H2OFeatureDropper_fit ref_env frame0 (new_selector (PyList [PyInt 1, PyInt 2]) 0, []) =
     (((new_selector (PyList [PyInt 1, PyInt 2]) 0)\<lparr>drop' := Some [PyInt 1, PyInt 2]\<rparr>, []),
      Inr ((new_selector (PyList [PyInt 1, PyInt 2]) 0)\<lparr>drop' := Some [PyInt 1, PyInt 2]\<rparr>))"
  by (simp add: H2OFeatureDropper_fit_def prog_defs Let_def new_selector_def ref_env_def)

subsection \<open>Transforming\<close>

lemma pick_sublist:
  assumes "distinct (map fst cs)"
  shows "set ys \<subseteq> set cs \<Longrightarrow> pick cs (map fst ys) = Inr ys"
proof (induction ys)
  case Nil
  then show ?case by simp
next
  case (Cons y ys)
  obtain n c where y: "y = (n, c)" by (cases y)
  from Cons.prems y have "(n, c) \<in> set cs" by simp
  then have "map_of cs n = Some c" using assms by simp
  moreover have "pick cs (map fst ys) = Inr ys" using Cons by simp
  ultimately show ?case using y by simp
qed

lemma getitem_filter:
  assumes "distinct (columns X)"
  shows "getitem X (filter P (columns X)) = Inr (X\<lparr>cols := filter (\<lambda>(n, c). P n) (cols X)\<rparr>)"
proof -
  have "filter P (columns X) = map fst (filter (\<lambda>(n, c). P n) (cols X))"
    by (simp add: columns_def filter_map comp_def split_def)
  moreover have "pick (cols X) (map fst (filter (\<lambda>(n, c). P n) (cols X))) =
                 Inr (filter (\<lambda>(n, c). P n) (cols X))"
    using assms by (intro pick_sublist) (auto simp: columns_def)
  ultimately show ?thesis by (simp add: getitem_def)
qed

text \<open>
  C8. A selector without \<^verbatim>\<open>drop_\<close> refuses \<^verbatim>\<open>transform\<close> with the not-fitted error,
  whatever the helpers do. With \<^verbatim>\<open>check_frame\<close> and \<^verbatim>\<open>_retain_features\<close> as the
  specification describes them and a frame whose column names are distinct, a selector
  with \<^verbatim>\<open>drop_\<close> returns the frame restricted to its columns that are not in
  \<^verbatim>\<open>drop_\<close>, in their order and with their cells and row count; the selector is left
  as it was, and the input frame, a value, is not changed.
\<close>

theorem transform_restricts:
  "(drop' s = None \<longrightarrow>
      transform env X (s, l) = ((s, l), Inl (NotFittedError ''drop_'')))
   \<and> (drop' s = Some d \<and> check_frame env = check_frame_spec \<and>
       retain_features env = retain_features_spec \<and> distinct (columns X) \<longrightarrow>
      transform env X (s, l) =
        ((s, l @ [CheckFrame, Subset]),
         Inr (X\<lparr>cols := filter (\<lambda>(n, c). PyStr n \<notin> set d) (cols X)\<rparr>)) \<and>
      columns (X\<lparr>cols := filter (\<lambda>(n, c). PyStr n \<notin> set d) (cols X)\<rparr>) =
        filter (\<lambda>n. PyStr n \<notin> set d) (columns X))"
proof (intro conjI impI)
  assume "drop' s = None"
  then show "transform env X (s, l) = ((s, l), Inl (NotFittedError ''drop_''))"
    by (simp add: transform_def prog_defs)
next
  assume a: "drop' s = Some d \<and> check_frame env = check_frame_spec \<and>
       retain_features env = retain_features_spec \<and> distinct (columns X)"
  then have "getitem X (retain_features_spec X d) =
             Inr (X\<lparr>cols := filter (\<lambda>(n, c). PyStr n \<notin> set d) (cols X)\<rparr>)"
    unfolding retain_features_spec_def by (intro getitem_filter) simp
  then show "transform env X (s, l) =
        ((s, l @ [CheckFrame, Subset]),
         Inr (X\<lparr>cols := filter (\<lambda>(n, c). PyStr n \<notin> set d) (cols X)\<rparr>))"
    using a by (simp add: transform_def prog_defs check_frame_spec_def)
  show "columns (X\<lparr>cols := filter (\<lambda>(n, c). PyStr n \<notin> set d) (cols X)\<rparr>) =
        filter (\<lambda>n. PyStr n \<notin> set d) (columns X)"
    by (simp add: columns_def filter_map comp_def split_def)
qed

text \<open>
  An instance: a selector fitted to drop \<open>a\<close>, applied to the example frame.
\<close>

theorem transform_restricts_witness:
  "drop' ((sel0 0)\<lparr>drop' := Some [PyStr ''a'']\<rparr>) = Some [PyStr ''a''] \<and>
   check_frame ref_env = check_frame_spec \<and> retain_features ref_env = retain_features_spec \<and>
   distinct (columns frame0) \<and>
   snd (transform ref_env frame0 ((sel0 0)\<lparr>drop' := Some [PyStr ''a'']\<rparr>, [])) =
     Inr \<lparr>nrows = 4,
          cols = [(''b'', [Some 1, Some 2, None, None]),
                  (''c'', [Some 3, Some 3, Some 3, Some 3]),
                  (''y'', [Some 0, Some 1, Some 0, Some 1])]\<rparr> \<and>
   drop' (sel0 0) = None \<and>
   transform ref_env frame0 (sel0 0, []) = ((sel0 0, []), Inl (NotFittedError ''drop_''))"
proof -
  let ?s = "(sel0 0)\<lparr>drop' := Some [PyStr ''a'']\<rparr>"
  have h: "drop' ?s = Some [PyStr ''a''] \<and> check_frame ref_env = check_frame_spec \<and>
           retain_features ref_env = retain_features_spec \<and> distinct (columns frame0)"
    by (simp add: ref_env_def columns_def frame0_def)
  have n: "drop' (sel0 0) = None" by (simp add: sel0_def new_selector_def)
  have "snd (transform ref_env frame0 (?s, [])) =
          Inr (frame0\<lparr>cols := filter (\<lambda>(n, c). PyStr n \<notin> set [PyStr ''a'']) (cols frame0)\<rparr>)"
    using transform_restricts[of ?s ref_env frame0 "[]" "[PyStr ''a'']"] h by simp
  moreover have "frame0\<lparr>cols := filter (\<lambda>(n, c). PyStr n \<notin> set [PyStr ''a'']) (cols frame0)\<rparr> =
      \<lparr>nrows = 4,
          cols = [(''b'', [Some 1, Some 2, None, None]),
                  (''c'', [Some 3, Some 3, Some 3, Some 3]),
                  (''y'', [Some 0, Some 1, Some 0, Some 1])]\<rparr>"
    by (simp add: frame0_def)
  moreover have "transform ref_env frame0 (sel0 0, []) = ((sel0 0, []), Inl (NotFittedError ''drop_''))"
    using transform_restricts[of "sel0 0" ref_env frame0 "[]"] n by simp
  ultimately show ?thesis using h n by simp
qed

subsection \<open>Constructing a pipeline\<close>

lemma truthy_iter_nonempty:
  "truthy x \<Longrightarrow> has_iter p3 x \<Longrightarrow> \<exists>y ys. py_iter x = Inr (y # ys)"
  by (cases x) (auto simp: neq_Nil_conv)

lemma init_feature_names:
  assumes "H2OPipeline_init p3 M stps fn tf = Inr P"
  shows "pipe_feature_names P = fn \<and> truthy_arg fn \<and> has_iter_arg p3 fn"
  using assms
  by (auto simp: H2OPipeline_init_def val_features_def Let_def base_init_def
           split: if_splits sum.splits)

lemma init_accepts:
  assumes "truthy_arg fn" and "has_iter_arg p3 fn" and "stps \<noteq> []"
    and "distinct (map fst stps)"
    and "list_all (is_transformer M) (butlast (map snd stps))"
    and "has_train M (last (map snd stps))"
  shows "H2OPipeline_init p3 M stps fn tf =
           Inr \<lparr>pipe_feature_names = fn, pipe_target_feature = tf, steps = stps,
                training_cols' = None\<rparr>"
  using assms by (simp add: H2OPipeline_init_def val_features_def Let_def base_init_def)

text \<open>
  C10, as the code has it. Constructing an \<^verbatim>\<open>H2OPipeline\<close> with \<^verbatim>\<open>feature_names\<close> equal
  to \<^verbatim>\<open>None\<close>, the default, or to any other false value, such as an empty list, tuple
  or string, raises the \<^verbatim>\<open>ValueError\<close> of \<^verbatim>\<open>_val_features\<close>, whatever the steps. A
  pipeline that was constructed holds the \<^verbatim>\<open>feature_names\<close> it was given, and they are
  true and have \<^verbatim>\<open>__iter__\<close>; if they are a list, a tuple or a string they yield at
  least one element. An iterator or generator is accepted whatever it will yield, also
  when that is nothing.
\<close>

theorem init_feature_names_rule:
  "(\<not> truthy_arg fn \<longrightarrow>
      H2OPipeline_init p3 M stps fn tf = Inl (ValueError ''invalid value for feature_names''))
   \<and> H2OPipeline_init p3 M stps (Val PyNone) tf =
       Inl (ValueError ''invalid value for feature_names'')
   \<and> H2OPipeline_init p3 M stps (Val (PyList [])) tf =
       Inl (ValueError ''invalid value for feature_names'')
   \<and> H2OPipeline_init p3 M stps (Val (PyTuple [])) tf =
       Inl (ValueError ''invalid value for feature_names'')
   \<and> H2OPipeline_init p3 M stps (Val (PyStr [])) tf =
       Inl (ValueError ''invalid value for feature_names'')
   \<and> (H2OPipeline_init p3 M stps fn tf = Inr P \<longrightarrow>
        pipe_feature_names P = fn \<and> truthy_arg fn \<and> has_iter_arg p3 fn \<and>
        (\<forall>v. fn = Val v \<longrightarrow> (\<exists>y ys. iter_arg (pipe_feature_names P) = Inr (y # ys))))
   \<and> (stps \<noteq> [] \<and> distinct (map fst stps) \<and>
       list_all (is_transformer M) (butlast (map snd stps)) \<and>
       has_train M (last (map snd stps)) \<longrightarrow>
        H2OPipeline_init p3 M stps (Iterator xs) tf =
          Inr \<lparr>pipe_feature_names = Iterator xs, pipe_target_feature = tf, steps = stps,
               training_cols' = None\<rparr>)"
proof (intro conjI impI allI)
  show "H2OPipeline_init p3 M stps fn tf = Inl (ValueError ''invalid value for feature_names'')"
    if "\<not> truthy_arg fn"
    using that by (simp add: H2OPipeline_init_def val_features_def)
  show "H2OPipeline_init p3 M stps (Val PyNone) tf =
          Inl (ValueError ''invalid value for feature_names'')"
    by (simp add: H2OPipeline_init_def val_features_def)
  show "H2OPipeline_init p3 M stps (Val (PyList [])) tf =
          Inl (ValueError ''invalid value for feature_names'')"
    by (simp add: H2OPipeline_init_def val_features_def)
  show "H2OPipeline_init p3 M stps (Val (PyTuple [])) tf =
          Inl (ValueError ''invalid value for feature_names'')"
    by (simp add: H2OPipeline_init_def val_features_def)
  show "H2OPipeline_init p3 M stps (Val (PyStr [])) tf =
          Inl (ValueError ''invalid value for feature_names'')"
    by (simp add: H2OPipeline_init_def val_features_def)
  show "H2OPipeline_init p3 M stps (Iterator xs) tf =
          Inr \<lparr>pipe_feature_names = Iterator xs, pipe_target_feature = tf, steps = stps,
               training_cols' = None\<rparr>"
    if "stps \<noteq> [] \<and> distinct (map fst stps) \<and>
        list_all (is_transformer M) (butlast (map snd stps)) \<and>
        has_train M (last (map snd stps))"
    using that by (intro init_accepts) simp_all
next
  assume a: "H2OPipeline_init p3 M stps fn tf = Inr P"
  then have f: "pipe_feature_names P = fn \<and> truthy_arg fn \<and> has_iter_arg p3 fn"
    by (rule init_feature_names)
  then show "pipe_feature_names P = fn" "truthy_arg fn" "has_iter_arg p3 fn" by simp_all
  show "\<exists>y ys. iter_arg (pipe_feature_names P) = Inr (y # ys)" if "fn = Val v" for v
    using f that truthy_iter_nonempty[of v p3] by simp
qed

lemma init0:
  "H2OPipeline_init False (class_table ref_env) steps0 (Val (PyList [PyStr ''a''])) (PyStr ''y'') =
     Inr pipe0"
  by (simp add: H2OPipeline_init_def val_features_def base_init_def steps0_def pipe0_def
        class_table_def Let_def)

lemma steps0_ok:
  "steps0 \<noteq> [] \<and> distinct (map fst steps0) \<and>
   list_all (is_transformer (class_table ref_env)) (butlast (map snd steps0)) \<and>
   has_train (class_table ref_env) (last (map snd steps0))"
  by (simp add: steps0_def class_table_def)

text \<open>
  Instances of C10: the example pipeline is constructed, and its feature names yield an
  element; the empty string is refused; a generator that will yield one name is
  accepted.
\<close>

theorem init_feature_names_rule_witness:
  "H2OPipeline_init False (class_table ref_env) steps0 (Val (PyList [PyStr ''a''])) (PyStr ''y'') =
     Inr pipe0 \<and>
   pipe_feature_names pipe0 = Val (PyList [PyStr ''a'']) \<and>
   (\<exists>y ys. iter_arg (pipe_feature_names pipe0) = Inr (y # ys)) \<and>
   \<not> truthy_arg (Val (PyStr [])) \<and>
   H2OPipeline_init False (class_table ref_env) steps0 (Val (PyStr [])) (PyStr ''y'') =
     Inl (ValueError ''invalid value for feature_names'') \<and>
   steps0 \<noteq> [] \<and> distinct (map fst steps0) \<and>
   list_all (is_transformer (class_table ref_env)) (butlast (map snd steps0)) \<and>
   has_train (class_table ref_env) (last (map snd steps0)) \<and>
   H2OPipeline_init False (class_table ref_env) steps0 (Iterator [PyStr ''a'']) (PyStr ''y'') =
     Inr \<lparr>pipe_feature_names = Iterator [PyStr ''a''], pipe_target_feature = PyStr ''y'',
          steps = steps0, training_cols' = None\<rparr>"
proof -
  have n: "\<not> truthy_arg (Val (PyStr []))" by simp
  have A: "pipe_feature_names pipe0 = Val (PyList [PyStr ''a'']) \<and>
           (\<exists>y ys. iter_arg (pipe_feature_names pipe0) = Inr (y # ys))"
    using init0
      init_feature_names_rule[of "Val (PyList [PyStr ''a''])" False "class_table ref_env" steps0
        "PyStr ''y''" pipe0]
    by blast
  have B: "H2OPipeline_init False (class_table ref_env) steps0 (Val (PyStr [])) (PyStr ''y'') =
     Inl (ValueError ''invalid value for feature_names'')"
    using init_feature_names_rule[of "Val (PyStr [])" False "class_table ref_env" steps0
        "PyStr ''y''"] n
    by blast
  have C: "H2OPipeline_init False (class_table ref_env) steps0 (Iterator [PyStr ''a''])
             (PyStr ''y'') =
     Inr \<lparr>pipe_feature_names = Iterator [PyStr ''a''], pipe_target_feature = PyStr ''y'',
          steps = steps0, training_cols' = None\<rparr>"
    using init_feature_names_rule[where M = "class_table ref_env" and stps = steps0
        and xs = "[PyStr ''a'']" and ?p3.0 = False and tf = "PyStr ''y''"] steps0_ok
    by blast
  show ?thesis using init0 A n B C steps0_ok by blast
qed

text \<open>
  C10 as stated fails in its conclusion: a pipeline that was constructed need not hold
  feature names that yield an element. An exhausted iterator, such as \<^verbatim>\<open>iter([])\<close> or
  an empty generator, is true and has \<^verbatim>\<open>__iter__\<close>, so that \<^verbatim>\<open>_val_features\<close>
  returns it, and the pipeline holds an iterable that yields nothing.
\<close>

theorem init_empty_iterator_counterexample:
  "H2OPipeline_init False (class_table ref_env) steps0 (Iterator []) (PyStr ''y'') =
     Inr (pipe0\<lparr>pipe_feature_names := Iterator []\<rparr>)
   \<and> iter_arg (pipe_feature_names (pipe0\<lparr>pipe_feature_names := Iterator []\<rparr>)) = Inr []"
  by (simp add: H2OPipeline_init_def val_features_def base_init_def steps0_def pipe0_def
        class_table_def Let_def)

subsection \<open>Routing of fit parameters\<close>

lemma dict_of_append: "dict_of (xs @ ys) = dict_of xs ++ dict_of ys"
  by (simp add: dict_of_rev)

lemma dict_of_const:
  "dict_of (map (\<lambda>(k, ob). (k, c)) xs) = (\<lambda>k. if k \<in> set (map fst xs) then Some c else None)"
proof
  fix k
  show "dict_of (map (\<lambda>(k, ob). (k, c)) xs) k = (if k \<in> set (map fst xs) then Some c else None)"
  proof (cases "map_of (rev (map (\<lambda>(k, ob). (k, c)) xs)) k")
    case None
    then have "k \<notin> fst ` set (rev (map (\<lambda>(k, ob). (k, c)) xs))"
      by (simp add: map_of_eq_None_iff)
    then have "k \<notin> set (map fst xs)" by force
    then show ?thesis using None by (simp add: dict_of_rev)
  next
    case (Some v)
    then have "(k, v) \<in> set (rev (map (\<lambda>(k, ob). (k, c)) xs))" by (rule map_of_SomeD)
    then have "v = c \<and> k \<in> set (map fst xs)" by force
    then show ?thesis using Some by (simp add: dict_of_rev)
  qed
qed

lemma bucket_of_Nil: "bucket_of [] s = Map.empty"
  by (simp add: bucket_of_def dict_of_def)

lemma init_buckets:
  "dict_of (map (\<lambda>(step, ob). (step, Map.empty)) stps) = buckets_of (map fst stps) []"
  by (auto simp: dict_of_const buckets_of_def bucket_of_Nil fun_eq_iff)

lemma bucket_of_Cons:
  "bucket_of (kv # kw) s = dict_of (routed kv s) ++ bucket_of kw s"
  by (simp add: bucket_of_def dict_of_append)

lemma split_params_routes:
  "well_named names kw \<Longrightarrow> dom b = set names \<Longrightarrow>
   split_params b kw =
     Inr (\<lambda>s. case b s of None \<Rightarrow> None | Some d \<Rightarrow> Some (d ++ bucket_of kw s))"
proof (induction kw arbitrary: b)
  case Nil
  then show ?case by (auto simp: bucket_of_Nil fun_eq_iff split: option.splits)
next
  case (Cons kv kw)
  obtain k v where kv: "kv = (k, v)" by (cases kv)
  from Cons.prems(1) kv obtain s p where sp: "split_dunder k = Some (s, p)" and sn: "s \<in> set names"
    by (auto simp: well_named_def split: option.splits)
  from sn Cons.prems(2) obtain d where d: "b s = Some d" by auto
  have wn: "well_named names kw" using Cons.prems(1) by (simp add: well_named_def)
  have dm: "dom (b(s \<mapsto> d(p \<mapsto> v))) = set names" using Cons.prems(2) d by auto
  have "split_params b (kv # kw) = split_params (b(s \<mapsto> d(p \<mapsto> v))) kw"
    using kv sp d by simp
  also have "\<dots> = Inr (\<lambda>s'. case (b(s \<mapsto> d(p \<mapsto> v))) s' of None \<Rightarrow> None
                                | Some d' \<Rightarrow> Some (d' ++ bucket_of kw s'))"
    by (rule Cons.IH[OF wn dm])
  also have "(\<lambda>s'. case (b(s \<mapsto> d(p \<mapsto> v))) s' of None \<Rightarrow> None
                                | Some d' \<Rightarrow> Some (d' ++ bucket_of kw s')) =
             (\<lambda>s'. case b s' of None \<Rightarrow> None | Some d' \<Rightarrow> Some (d' ++ bucket_of (kv # kw) s'))"
  proof
    fix s'
    show "(case (b(s \<mapsto> d(p \<mapsto> v))) s' of None \<Rightarrow> None
                                | Some d' \<Rightarrow> Some (d' ++ bucket_of kw s')) =
          (case b s' of None \<Rightarrow> None | Some d' \<Rightarrow> Some (d' ++ bucket_of (kv # kw) s'))"
    proof (cases "s' = s")
      case True
      have "d(p \<mapsto> v) ++ bucket_of kw s = d ++ ([p \<mapsto> v] ++ bucket_of kw s)"
        by (auto simp: map_add_def fun_eq_iff split: option.splits)
      then show ?thesis using True d kv sp
        by (simp add: bucket_of_Cons routed_def dict_of_def)
    next
      case False
      then show ?thesis using kv sp
        by (simp add: bucket_of_Cons routed_def dict_of_def split: option.splits)
    qed
  qed
  finally show ?case .
qed

lemma split_params_rejects:
  "\<not> well_named names kw \<Longrightarrow> dom b = set names \<Longrightarrow> \<exists>e. split_params b kw = Inl e"
proof (induction kw arbitrary: b)
  case Nil
  then show ?case by (simp add: well_named_def)
next
  case (Cons kv kw)
  obtain k v where kv: "kv = (k, v)" by (cases kv)
  show ?case
  proof (cases "split_dunder k")
    case None
    then show ?thesis using kv by simp
  next
    case (Some sp)
    obtain s p where sp: "sp = (s, p)" by (cases sp)
    show ?thesis
    proof (cases "b s")
      case None
      then show ?thesis using kv Some sp by simp
    next
      case d: (Some d)
      then have sn: "s \<in> set names" using Cons.prems(2) by auto
      then have "\<not> well_named names kw"
        using Cons.prems(1) kv Some sp by (simp add: well_named_def)
      moreover have "dom (b(s \<mapsto> d(p \<mapsto> v))) = set names" using Cons.prems(2) d by auto
      ultimately obtain e where "split_params (b(s \<mapsto> d(p \<mapsto> v))) kw = Inl e"
        using Cons.IH by blast
      then show ?thesis using kv Some sp d by simp
    qed
  qed
qed

lemma dom_buckets_of: "dom (buckets_of names kw) = set names"
  by (auto simp: buckets_of_def split: if_splits)

lemma split_params_init:
  "well_named names kw \<Longrightarrow> split_params (buckets_of names []) kw = Inr (buckets_of names kw)"
proof -
  assume wn: "well_named names kw"
  have "(\<lambda>s. case buckets_of names [] s of None \<Rightarrow> None
                | Some d \<Rightarrow> Some (d ++ bucket_of kw s)) = buckets_of names kw"
    by (auto simp: buckets_of_def bucket_of_Nil fun_eq_iff)
  then show ?thesis
    using split_params_routes[OF wn dom_buckets_of[of names "[]"]] by simp
qed

lemma pre_transform_routes:
  assumes wn: "well_named (map fst (steps P)) kw" and ne: "steps P \<noteq> []"
  shows "pre_transform M frame kw (P, l) =
     bind (run_transforms M (buckets_of (map fst (steps P)) kw)
             [0 ..< length (steps P) - 1] frame)
          (\<lambda>fT. return (fT, bucket_of kw (fst (last (steps P))))) (P, l)"
proof -
  have "fst (last (steps P)) \<in> set (map fst (steps P))" using ne by simp
  then have lk: "lookup (buckets_of (map fst (steps P)) kw) (fst (last (steps P)))
                   (fst (last (steps P))) = Inr (bucket_of kw (fst (last (steps P))))"
    by (simp add: lookup_def buckets_of_def)
  show ?thesis
    using ne lk split_params_init[OF wn]
    by (simp add: pre_transform_def init_buckets prog_defs Let_def
             split: prod.splits sum.splits)
qed

lemma pre_transform_rejects:
  assumes "\<not> well_named (map fst (steps P)) kw"
  shows "\<exists>e. pre_transform M frame kw (P, l) = ((P, l), Inl e)"
proof -
  obtain e where "split_params (buckets_of (map fst (steps P)) []) kw = Inl e"
    using split_params_rejects[OF assms dom_buckets_of[of _ "[]"]] by blast
  then show ?thesis
    by (simp add: pre_transform_def init_buckets prog_defs Let_def)
qed

lemma bind_get_self: "bind get_self f (s, l) = f s (s, l)"
  by (simp add: bind_def get_self_def)

lemma run_transforms_step:
  assumes "i < length (steps P)"
  shows "run_transforms M (buckets_of (map fst (steps P)) kw) (i # is) fT (P, l) =
     bind (on_step i (modify (set_target_feature M (pipe_target_feature P)))) (\<lambda>_.
     bind get_self (\<lambda>self1.
     bind (if has_fit_transform M (snd (steps self1 ! i)) then
             on_step i (obj_fit_transform M fT (bucket_of kw (fst (steps P ! i))))
           else
             bind (on_step i (obj_fit M fT (bucket_of kw (fst (steps P ! i))))) (\<lambda>_.
               on_step i (obj_transform M fT))) (\<lambda>fT'.
       run_transforms M (buckets_of (map fst (steps P)) kw) is fT'))) (P, l)"
proof -
  have "fst (steps P ! i) \<in> set (map fst (steps P))" using assms by simp
  then have lk: "lookup (buckets_of (map fst (steps P)) kw) (fst (steps P ! i)) (fst (steps P ! i)) =
             Inr (bucket_of kw (fst (steps P ! i)))"
    by (simp add: lookup_def buckets_of_def)
  have lf: "bind (lift (Inr x)) f = f x" for x :: kwargs and f :: "kwargs \<Rightarrow> ('o pipeline, frame) prog"
    by (simp add: bind_def lift_def fun_eq_iff)
  show ?thesis
    by (simp add: bind_get_self lk lf Let_def cong: if_cong)
qed

lemma well_named_Nil: "well_named names []"
  by (simp add: well_named_def)

lemma check_rest_ok: "check_names xs = Inr () \<Longrightarrow> check_rest xs = []"
  by (induction xs) (auto split: if_splits sum.splits)

lemma drained_twice: "drained (drained x r) r' = drained x r'"
  by (cases x) simp_all

lemma fit_unfold:
  assumes y: "is_str (pipe_target_feature P)"
    and x: "iter_arg (pipe_feature_names P) = Inr xs"
    and cn: "check_names xs = Inr ()"
    and p: "iter_arg (drained (pipe_feature_names P) []) = Inr ps"
    and gi: "getitem_py frame (ps @ [pipe_target_feature P]) = Inr frame1"
    and ne: "steps P \<noteq> []"
  shows "H2OPipeline_fit M frame [] (P, l) =
     (case run_transforms M (buckets_of (map fst (steps P)) [])
             [0 ..< length (steps P) - 1] frame1
             (P\<lparr>training_cols' := None,
                pipe_feature_names := drained (pipe_feature_names P) []\<rparr>, l @ [Subset]) of
        (st, Inl e) \<Rightarrow> (st, Inl e)
      | ((P1, l1), Inr Xt) \<Rightarrow>
          if columns Xt = [] then
            ((P1\<lparr>training_cols' := Some []\<rparr>, l1),
             Inl (ValueError ''no columns retained after fit!''))
          else
            bind (on_step (length (steps P1) - 1)
                    (obj_train M Xt
                       (filter (\<lambda>n. n \<noteq> pipe_target_feature P) (map PyStr (columns Xt)))
                       (pipe_target_feature P) Map.empty))
                 (\<lambda>_. get_self)
              (P1\<lparr>training_cols' :=
                      Some (filter (\<lambda>n. n \<noteq> pipe_target_feature P) (map PyStr (columns Xt)))\<rparr>,
               l1))"
proof -
  let ?P0 = "P\<lparr>training_cols' := None,
               pipe_feature_names := drained (pipe_feature_names P) []\<rparr>"
  have pt: "pre_transform M frame1 [] (?P0, l @ [Subset]) =
     bind (run_transforms M (buckets_of (map fst (steps P)) [])
             [0 ..< length (steps P) - 1] frame1)
          (\<lambda>fT. return (fT, Map.empty)) (?P0, l @ [Subset])"
    using pre_transform_routes[of ?P0 "[]" M frame1 "l @ [Subset]"] ne
    by (simp add: well_named_Nil bucket_of_Nil)
  show ?thesis
    using y x cn p gi
    by (simp add: H2OPipeline_fit_def reset_def prog_defs Let_def check_rest_ok drained_twice
             pt[unfolded bind_def return_def]
             split: prod.splits sum.splits)
qed

lemma split_dunder_join:
  "split_dunder k = Some (s, p) \<Longrightarrow> k = s @ ''__'' @ p"
proof (induction k arbitrary: s rule: split_dunder.induct)
  case (1 a b cs)
  show ?case
  proof (cases "a = CHR ''_'' \<and> b = CHR ''_''")
    case True
    then show ?thesis using "1.prems" by simp
  next
    case False
    then obtain s' where s': "split_dunder (b # cs) = Some (s', p)" and s: "s = a # s'"
      using "1.prems" by (auto split: if_splits)
    from "1.IH"[OF False s'] s show ?thesis by simp
  qed
qed simp_all

lemma routed_mem:
  "(p, v) \<in> set (routed kv s) \<longleftrightarrow> split_dunder (fst kv) = Some (s, p) \<and> snd kv = v"
  by (auto simp: routed_def split: option.splits if_splits)

lemma routed_keys_distinct:
  "distinct (map fst kw) \<Longrightarrow> distinct (map fst (concat (map (\<lambda>kv. routed kv s) kw)))"
proof (induction kw)
  case Nil
  then show ?case by simp
next
  case (Cons kv kw)
  have d1: "distinct (map fst (routed kv s))"
    by (simp add: routed_def split: option.splits)
  have d2: "distinct (map fst (concat (map (\<lambda>kv. routed kv s) kw)))"
    using Cons by simp
  have disj: "p \<notin> fst ` set (concat (map (\<lambda>kv. routed kv s) kw))"
    if "p \<in> fst ` set (routed kv s)" for p
  proof
    assume "p \<in> fst ` set (concat (map (\<lambda>kv. routed kv s) kw))"
    then obtain kv' v' where kv': "kv' \<in> set kw" and m: "(p, v') \<in> set (routed kv' s)"
      by auto
    from that obtain v where "(p, v) \<in> set (routed kv s)" by auto
    then have "fst kv = s @ ''__'' @ p" using routed_mem split_dunder_join by blast
    moreover have "fst kv' = s @ ''__'' @ p" using m routed_mem split_dunder_join by blast
    ultimately have "fst kv \<in> fst ` set kw" using kv' by force
    then show False using Cons.prems by simp
  qed
  show ?case using d1 d2 disj by auto
qed

lemma bucket_of_iff:
  assumes "distinct (map fst kw)"
  shows "bucket_of kw s p = Some v \<longleftrightarrow> (\<exists>k. (k, v) \<in> set kw \<and> split_dunder k = Some (s, p))"
proof -
  have "bucket_of kw s p = Some v \<longleftrightarrow> (p, v) \<in> set (concat (map (\<lambda>kv. routed kv s) kw))"
    unfolding bucket_of_def using routed_keys_distinct[OF assms] by (rule dict_of_distinct)
  also have "\<dots> \<longleftrightarrow> (\<exists>kv \<in> set kw. (p, v) \<in> set (routed kv s))" by auto
  also have "\<dots> \<longleftrightarrow> (\<exists>k. (k, v) \<in> set kw \<and> split_dunder k = Some (s, p))"
    by (force simp: routed_mem)
  finally show ?thesis .
qed

text \<open>
  C3, as the code has it. \<^verbatim>\<open>H2OPipeline.fit\<close> takes no fit-time parameters: a call that
  supplies one raises \<^verbatim>\<open>TypeError\<close> with the pipeline untouched, and the body hands
  \<^verbatim>\<open>_pre_transform\<close> no parameters, so that every step and the estimator's
  \<^verbatim>\<open>train\<close> receive the empty bucket. The routing is in \<^verbatim>\<open>_pre_transform\<close>: when
  every parameter it is given is named \<^verbatim>\<open>stepname__paramname\<close> for a step of the
  pipeline, it runs each step but the last with the bucket of that step's name and
  returns the bucket of the last step; otherwise, so for a name without \<^verbatim>\<open>__\<close>, it
  raises before any step is run. The bucket of a step maps \<open>p\<close> to \<open>v\<close> exactly when a
  parameter with value \<open>v\<close> is supplied whose name splits at the leftmost \<^verbatim>\<open>__\<close> into
  the step's name and \<open>p\<close>. In \<^verbatim>\<open>fit\<close> the frame is restricted to what the feature
  names yield when they are run over a second time, and the target; for a list or a
  tuple these are the names the check has seen.
\<close>

theorem fit_params_routing:
  "(kw \<noteq> [] \<longrightarrow>
      H2OPipeline_fit M frame kw st =
        (st, Inl (TypeError ''fit() got an unexpected keyword argument'')))
   \<and> (is_str (pipe_target_feature P) \<and> iter_arg (pipe_feature_names P) = Inr xs \<and>
       check_names xs = Inr () \<and>
       iter_arg (drained (pipe_feature_names P) []) = Inr ps \<and>
       getitem_py frame (ps @ [pipe_target_feature P]) = Inr frame1 \<and> steps P \<noteq> [] \<longrightarrow>
      H2OPipeline_fit M frame [] (P, l) =
        (case run_transforms M (buckets_of (map fst (steps P)) [])
                [0 ..< length (steps P) - 1] frame1
                (P\<lparr>training_cols' := None,
                   pipe_feature_names := drained (pipe_feature_names P) []\<rparr>, l @ [Subset]) of
           (st, Inl e) \<Rightarrow> (st, Inl e)
         | ((P1, l1), Inr Xt) \<Rightarrow>
             if columns Xt = [] then
               ((P1\<lparr>training_cols' := Some []\<rparr>, l1),
                Inl (ValueError ''no columns retained after fit!''))
             else
               bind (on_step (length (steps P1) - 1)
                       (obj_train M Xt
                          (filter (\<lambda>n. n \<noteq> pipe_target_feature P) (map PyStr (columns Xt)))
                          (pipe_target_feature P) Map.empty))
                    (\<lambda>_. get_self)
                 (P1\<lparr>training_cols' :=
                         Some (filter (\<lambda>n. n \<noteq> pipe_target_feature P)
                                 (map PyStr (columns Xt)))\<rparr>,
                  l1)))
   \<and> (steps P \<noteq> [] \<and> well_named (map fst (steps P)) kw \<longrightarrow>
      pre_transform M frame kw (P, l) =
        bind (run_transforms M (buckets_of (map fst (steps P)) kw)
                [0 ..< length (steps P) - 1] frame)
             (\<lambda>fT. return (fT, bucket_of kw (fst (last (steps P))))) (P, l))
   \<and> (i < length (steps P) \<longrightarrow>
      run_transforms M (buckets_of (map fst (steps P)) kw) (i # is) fT (P, l) =
        bind (on_step i (modify (set_target_feature M (pipe_target_feature P)))) (\<lambda>_.
        bind get_self (\<lambda>self1.
        bind (if has_fit_transform M (snd (steps self1 ! i)) then
                on_step i (obj_fit_transform M fT (bucket_of kw (fst (steps P ! i))))
              else
                bind (on_step i (obj_fit M fT (bucket_of kw (fst (steps P ! i))))) (\<lambda>_.
                  on_step i (obj_transform M fT))) (\<lambda>fT'.
          run_transforms M (buckets_of (map fst (steps P)) kw) is fT'))) (P, l))
   \<and> (\<not> well_named (map fst (steps P)) kw \<longrightarrow>
      (\<exists>e. pre_transform M frame kw (P, l) = ((P, l), Inl e)))
   \<and> ((k, v) \<in> set kw \<and> split_dunder k = None \<longrightarrow> \<not> well_named names kw)
   \<and> bucket_of [] s = Map.empty
   \<and> (distinct (map fst kw) \<longrightarrow>
        (bucket_of kw s p = Some v \<longleftrightarrow>
           (\<exists>k. (k, v) \<in> set kw \<and> split_dunder k = Some (s, p))))"
proof (intro conjI impI)
  show "H2OPipeline_fit M frame kw st =
        (st, Inl (TypeError ''fit() got an unexpected keyword argument''))" if "kw \<noteq> []"
    using that by (simp add: H2OPipeline_fit_def raise_def)
  show "\<not> well_named names kw" if "(k, v) \<in> set kw \<and> split_dunder k = None"
    using that by (force simp: well_named_def list_all_iff)
  show "bucket_of [] s = Map.empty" by (rule bucket_of_Nil)
  show "bucket_of kw s p = Some v \<longleftrightarrow> (\<exists>k. (k, v) \<in> set kw \<and> split_dunder k = Some (s, p))"
    if "distinct (map fst kw)"
    using that by (rule bucket_of_iff)
  show "\<exists>e. pre_transform M frame kw (P, l) = ((P, l), Inl e)"
    if "\<not> well_named (map fst (steps P)) kw"
    using that by (rule pre_transform_rejects)
  show "run_transforms M (buckets_of (map fst (steps P)) kw) (i # is) fT (P, l) =
        bind (on_step i (modify (set_target_feature M (pipe_target_feature P)))) (\<lambda>_.
        bind get_self (\<lambda>self1.
        bind (if has_fit_transform M (snd (steps self1 ! i)) then
                on_step i (obj_fit_transform M fT (bucket_of kw (fst (steps P ! i))))
              else
                bind (on_step i (obj_fit M fT (bucket_of kw (fst (steps P ! i))))) (\<lambda>_.
                  on_step i (obj_transform M fT))) (\<lambda>fT'.
          run_transforms M (buckets_of (map fst (steps P)) kw) is fT'))) (P, l)"
    if "i < length (steps P)"
    using that by (rule run_transforms_step)
  show "pre_transform M frame kw (P, l) =
        bind (run_transforms M (buckets_of (map fst (steps P)) kw)
                [0 ..< length (steps P) - 1] frame)
             (\<lambda>fT. return (fT, bucket_of kw (fst (last (steps P))))) (P, l)"
    if "steps P \<noteq> [] \<and> well_named (map fst (steps P)) kw"
    using that pre_transform_routes by blast
  show "H2OPipeline_fit M frame [] (P, l) =
        (case run_transforms M (buckets_of (map fst (steps P)) [])
                [0 ..< length (steps P) - 1] frame1
                (P\<lparr>training_cols' := None,
                   pipe_feature_names := drained (pipe_feature_names P) []\<rparr>, l @ [Subset]) of
           (st, Inl e) \<Rightarrow> (st, Inl e)
         | ((P1, l1), Inr Xt) \<Rightarrow>
             if columns Xt = [] then
               ((P1\<lparr>training_cols' := Some []\<rparr>, l1),
                Inl (ValueError ''no columns retained after fit!''))
             else
               bind (on_step (length (steps P1) - 1)
                       (obj_train M Xt
                          (filter (\<lambda>n. n \<noteq> pipe_target_feature P) (map PyStr (columns Xt)))
                          (pipe_target_feature P) Map.empty))
                    (\<lambda>_. get_self)
                 (P1\<lparr>training_cols' :=
                         Some (filter (\<lambda>n. n \<noteq> pipe_target_feature P)
                                 (map PyStr (columns Xt)))\<rparr>,
                  l1))"
    if "is_str (pipe_target_feature P) \<and> iter_arg (pipe_feature_names P) = Inr xs \<and>
       check_names xs = Inr () \<and>
       iter_arg (drained (pipe_feature_names P) []) = Inr ps \<and>
       getitem_py frame (ps @ [pipe_target_feature P]) = Inr frame1 \<and> steps P \<noteq> []"
    using that fit_unfold by blast
qed

lemma split0: "split_dunder ''model__ntrees'' = Some (''model'', ''ntrees'')"
  by simp

lemma split1: "split_dunder ''ntrees'' = None"
  by simp

lemma buckets0:
  "bucket_of kw0 ''drop'' = Map.empty" "bucket_of kw0 ''model'' = [''ntrees'' \<mapsto> PyInt 5]"
  by (simp_all add: bucket_of_def routed_def kw0_def dict_of_def)

lemma names0: "map fst (steps pipe0) = [''drop'', ''model'']" "steps pipe0 \<noteq> []"
  by (simp_all add: pipe0_def steps0_def)

lemma wn0: "well_named (map fst (steps pipe0)) kw0"
  by (simp add: names0 well_named_def kw0_def)

lemma wn1: "\<not> well_named (map fst (steps pipe0)) [(''ntrees'', PyInt 5)]"
  by (simp add: names0 well_named_def)

lemma run0:
  "bind (run_transforms (class_table ref_env) (buckets_of (map fst (steps pipe0)) kw0)
           [0 ..< length (steps pipe0) - 1] frame0)
        (\<lambda>fT. return (fT, bucket_of kw0 (fst (last (steps pipe0))))) (pipe0, []) =
   ((pipe0\<lparr>steps := [(''drop'', Sel FeatureDropper dropped0), (''model'', Est [])]\<rparr>,
     [CheckFrame, Subset]),
    Inr (\<lparr>nrows = 4,
          cols = [(''b'', [Some 1, Some 2, None, None]),
                  (''c'', [Some 3, Some 3, Some 3, Some 3]),
                  (''y'', [Some 0, Some 1, Some 0, Some 1])]\<rparr>,
         [''ntrees'' \<mapsto> PyInt 5]))"
  apply (simp add: names0 buckets_of_def buckets0 lookup_def)
  apply (simp add: pipe0_def steps0_def prog_defs on_step_def class_table_def Let_def
      no_kwargs_def as_sel_def ignore_def H2OFeatureDropper_fit_def new_selector_def
      ref_env_def transform_def check_frame_spec_def retain_features_spec_def columns_def
      getitem_def dropped0_def frame0_def buckets0 lookup_def)
  done

lemma fit0:
  "H2OPipeline_fit (class_table ref_env) frame0 [] (pipe0, []) =
     ((pipe0\<lparr>steps := [(''drop'', Sel FeatureDropper dropped0),
                         (''model'', Est [(Xt0, [], PyStr ''y'', Map.empty)])],
             training_cols' := Some []\<rparr>,
       [Subset, CheckFrame, Subset]),
      Inr (pipe0\<lparr>steps := [(''drop'', Sel FeatureDropper dropped0),
                         (''model'', Est [(Xt0, [], PyStr ''y'', Map.empty)])],
             training_cols' := Some []\<rparr>))"
  apply (simp add: H2OPipeline_fit_def pipe0_def reset_def prog_defs Let_def getitem_py_def
      getitem_def frame0_def pre_transform_def)
  apply (simp add: steps0_def lookup_def prog_defs on_step_def class_table_def Let_def
      no_kwargs_def as_sel_def ignore_def H2OFeatureDropper_fit_def new_selector_def
      ref_env_def transform_def check_frame_spec_def retain_features_spec_def columns_def
      getitem_def dropped0_def Xt0_def upt_rec dict_of_def)
  done

text \<open>
  An instance of C3 on the example pipeline: the parameter \<^verbatim>\<open>model__ntrees\<close> is refused by
  \<^verbatim>\<open>fit\<close>; given to \<^verbatim>\<open>_pre_transform\<close> it leaves the bucket of the dropper empty and
  comes back in the bucket of the estimator; the parameter \<^verbatim>\<open>ntrees\<close>, without a step
  name, makes \<^verbatim>\<open>_pre_transform\<close> raise before the dropper is run.
\<close>

theorem fit_params_routing_witness:
  "kw0 \<noteq> [] \<and>
   H2OPipeline_fit (class_table ref_env) frame0 kw0 (pipe0, []) =
     ((pipe0, []), Inl (TypeError ''fit() got an unexpected keyword argument'')) \<and>
   steps pipe0 \<noteq> [] \<and> well_named (map fst (steps pipe0)) kw0 \<and>
   pre_transform (class_table ref_env) frame0 kw0 (pipe0, []) =
     ((pipe0\<lparr>steps := [(''drop'', Sel FeatureDropper dropped0), (''model'', Est [])]\<rparr>,
       [CheckFrame, Subset]),
      Inr (\<lparr>nrows = 4,
            cols = [(''b'', [Some 1, Some 2, None, None]),
                    (''c'', [Some 3, Some 3, Some 3, Some 3]),
                    (''y'', [Some 0, Some 1, Some 0, Some 1])]\<rparr>,
           [''ntrees'' \<mapsto> PyInt 5])) \<and>
   (''ntrees'', PyInt 5) \<in> set [(''ntrees'', PyInt 5)] \<and> split_dunder ''ntrees'' = None \<and>
   \<not> well_named (map fst (steps pipe0)) [(''ntrees'', PyInt 5)] \<and>
   (\<exists>e. pre_transform (class_table ref_env) frame0 [(''ntrees'', PyInt 5)] (pipe0, []) =
          ((pipe0, []), Inl e)) \<and>
   distinct (map fst kw0) \<and>
   bucket_of kw0 ''model'' ''ntrees'' = Some (PyInt 5) \<and>
   (0::nat) < length (steps pipe0) \<and>
   is_str (pipe_target_feature pipe0) \<and>
   iter_arg (pipe_feature_names pipe0) = Inr [PyStr ''a''] \<and>
   check_names [PyStr ''a''] = Inr () \<and>
   iter_arg (drained (pipe_feature_names pipe0) []) = Inr [PyStr ''a''] \<and>
   (\<exists>F. getitem_py frame0 ([PyStr ''a''] @ [pipe_target_feature pipe0]) = Inr F)"
proof -
  have ne: "kw0 \<noteq> []" by (simp add: kw0_def)
  have A: "H2OPipeline_fit (class_table ref_env) frame0 kw0 (pipe0, []) =
     ((pipe0, []), Inl (TypeError ''fit() got an unexpected keyword argument''))"
    using fit_params_routing[where kw = kw0 and M = "class_table ref_env" and frame = frame0
        and st = "(pipe0, [])"] ne by blast
  have B: "pre_transform (class_table ref_env) frame0 kw0 (pipe0, []) =
        bind (run_transforms (class_table ref_env) (buckets_of (map fst (steps pipe0)) kw0)
                [0 ..< length (steps pipe0) - 1] frame0)
             (\<lambda>fT. return (fT, bucket_of kw0 (fst (last (steps pipe0))))) (pipe0, [])"
    using fit_params_routing[where kw = kw0 and M = "class_table ref_env" and frame = frame0
        and P = pipe0 and l = "[]"] wn0 names0(2) by blast
  have C: "\<exists>e. pre_transform (class_table ref_env) frame0 [(''ntrees'', PyInt 5)] (pipe0, []) =
          ((pipe0, []), Inl e)"
    using fit_params_routing[where kw = "[(''ntrees'', PyInt 5)]" and M = "class_table ref_env"
        and frame = frame0 and P = pipe0 and l = "[]"] wn1 by blast
  have dk: "distinct (map fst kw0)" by (simp add: kw0_def)
  have "bucket_of kw0 ''model'' ''ntrees'' = Some (PyInt 5) \<longleftrightarrow>
        (\<exists>k. (k, PyInt 5) \<in> set kw0 \<and> split_dunder k = Some (''model'', ''ntrees''))"
    using fit_params_routing[where kw = kw0 and s = "''model''" and p = "''ntrees''"
        and v = "PyInt 5"] dk by blast
  then have D: "bucket_of kw0 ''model'' ''ntrees'' = Some (PyInt 5)"
    by (simp add: kw0_def)
  have E: "is_str (pipe_target_feature pipe0) \<and>
           iter_arg (pipe_feature_names pipe0) = Inr [PyStr ''a''] \<and>
           check_names [PyStr ''a''] = Inr () \<and>
           iter_arg (drained (pipe_feature_names pipe0) []) = Inr [PyStr ''a''] \<and>
           (\<exists>F. getitem_py frame0 ([PyStr ''a''] @ [pipe_target_feature pipe0]) = Inr F)"
    by (simp add: pipe0_def getitem_py_def getitem_def frame0_def)
  show ?thesis
    using ne A B[unfolded run0] C D E dk wn0 wn1 names0 by simp
qed

text \<open>
  C3 as stated fails: \<^verbatim>\<open>fit\<close> does not route a supplied parameter. The parameter
  \<^verbatim>\<open>model__ntrees\<close>, named for the estimator step, makes \<^verbatim>\<open>fit\<close> raise \<^verbatim>\<open>TypeError\<close>
  with the pipeline untouched, no step run and the estimator not trained.
\<close>

theorem fit_takes_no_params_counterexample:
  "H2OPipeline_fit (class_table ref_env) frame0 [(''model__ntrees'', PyInt 5)] (pipe0, []) =
     ((pipe0, []), Inl (TypeError ''fit() got an unexpected keyword argument''))"
  by (simp add: H2OPipeline_fit_def raise_def)

text \<open>
  C1, on the code. The example pipeline drops its only feature \<open>a\<close>, so that the
  frame reaching the estimator holds the target \<open>y\<close> alone and the surviving columns
  without the target are none. \<^verbatim>\<open>fit\<close> tests the columns with the target, finds them
  not empty, and trains the estimator with \<^verbatim>\<open>x = []\<close>: it returns normally, with
  \<^verbatim>\<open>training_cols_\<close> empty.
\<close>

theorem fit_trains_on_no_columns:
  "H2OPipeline_fit (class_table ref_env) frame0 [] (pipe0, []) =
     ((pipe0\<lparr>steps := [(''drop'', Sel FeatureDropper dropped0),
                         (''model'', Est [(Xt0, [], PyStr ''y'', Map.empty)])],
             training_cols' := Some []\<rparr>,
       [Subset, CheckFrame, Subset]),
      Inr (pipe0\<lparr>steps := [(''drop'', Sel FeatureDropper dropped0),
                         (''model'', Est [(Xt0, [], PyStr ''y'', Map.empty)])],
             training_cols' := Some []\<rparr>))"
  by (rule fit0)

end
